theory Spec2Isabelle
  imports Main
begin

section \<open>JavaScript values used by the harness\<close>

text \<open>
  Strings are character lists. A JavaScript array with holes
  (\<^verbatim>\<open>let renderQueueEndpoints: Array<string> = []\<close>, written by index) is a list of
  optional elements: \<open>None\<close> is a hole, which reads as \<^verbatim>\<open>undefined\<close>, and a read
  past the end is \<^verbatim>\<open>undefined\<close> as well. A write past the end extends the array.
\<close>

type_synonym 'a js_array = "'a option list"

definition js_get :: "'a js_array \<Rightarrow> nat \<Rightarrow> 'a option" where
  "js_get xs i = (if i < length xs then xs ! i else None)"

definition js_set :: "'a js_array \<Rightarrow> nat \<Rightarrow> 'a \<Rightarrow> 'a js_array" where
  "js_set xs i v =
     (if i < length xs then xs[i := Some v]
      else xs @ replicate (i - length xs) None @ [Some v])"

text \<open>String concatenation with a possibly undefined operand prints \<^verbatim>\<open>undefined\<close>.\<close>

definition js_string :: "string option \<Rightarrow> string" where
  "js_string v = (case v of None \<Rightarrow> ''undefined'' | Some s \<Rightarrow> s)"

text \<open>Truthiness of a possibly undefined string: \<^verbatim>\<open>undefined\<close> and \<^verbatim>\<open>''\<close> are falsy.\<close>

definition js_truthy :: "string option \<Rightarrow> bool" where
  "js_truthy v = (case v of None \<Rightarrow> False | Some s \<Rightarrow> s \<noteq> [])"

definition isDigit :: "char \<Rightarrow> bool" where
  "isDigit c = (let n = (of_char c :: nat) in 48 \<le> n \<and> n \<le> 57)"

text \<open>Unary plus on a one-digit string, as in \<^verbatim>\<open>+testId\<close>.\<close>

definition digitValue :: "char \<Rightarrow> nat" where
  "digitValue c = of_char c - 48"

definition digitChar :: "nat \<Rightarrow> char" where
  "digitChar d = ''0123456789'' ! d"

text \<open>\<^verbatim>\<open>Number.prototype.toString\<close> on a non-negative integer: its decimal digits.\<close>

fun toString :: "nat \<Rightarrow> string" where
  "toString n = (if n < 10 then [digitChar n] else toString (n div 10) @ [digitChar (n mod 10)])"

declare toString.simps [simp del]

subsection \<open>The three regular expressions\<close>

text \<open>
  None of the patterns is anchored and none has the \<^verbatim>\<open>g\<close> flag, so \<^verbatim>\<open>test\<close> and
  \<^verbatim>\<open>exec\<close> search for the leftmost match from the start of the key each time.
\<close>

fun strip_prefix :: "string \<Rightarrow> string \<Rightarrow> string option" where
  "strip_prefix [] s = Some s"
| "strip_prefix (p # ps) [] = None"
| "strip_prefix (p # ps) (c # cs) = (if p = c then strip_prefix ps cs else None)"

text \<open>\<^verbatim>\<open>/lit/.test(s)\<close> for a pattern of literal characters.\<close>

fun literal_test :: "string \<Rightarrow> string \<Rightarrow> bool" where
  "literal_test p [] = (p = [])"
| "literal_test p (c # cs) =
     (case strip_prefix p (c # cs) of Some r \<Rightarrow> True | None \<Rightarrow> literal_test p cs)"

text \<open>A match of \<^verbatim>\<open>lit(\d)\<close> at the start of \<open>s\<close>: the captured digit.\<close>

definition literal_digit_here :: "string \<Rightarrow> string \<Rightarrow> char option" where
  "literal_digit_here p s =
     (case strip_prefix p s of
        None \<Rightarrow> None
      | Some r \<Rightarrow> (case r of [] \<Rightarrow> None | d # r' \<Rightarrow> if isDigit d then Some d else None))"

text \<open>\<^verbatim>\<open>/lit(\d)/.exec(s)\<close>: group 1 of the leftmost match, \<open>None\<close> for \<^verbatim>\<open>null\<close>.\<close>

fun literal_digit_exec :: "string \<Rightarrow> string \<Rightarrow> char option" where
  "literal_digit_exec p [] = None"
| "literal_digit_exec p (c # cs) =
     (case literal_digit_here p (c # cs) of
        Some d \<Rightarrow> Some d
      | None \<Rightarrow> literal_digit_exec p cs)"

definition bastionRegex_test :: "string \<Rightarrow> bool" where
  "bastionRegex_test k = literal_test ''bastionId'' k"

definition rqRegex_exec :: "string \<Rightarrow> char option" where
  "rqRegex_exec k = literal_digit_exec ''renderQueueEndpointWFS'' k"

definition certRegex_exec :: "string \<Rightarrow> char option" where
  "certRegex_exec k = literal_digit_exec ''CertSecretARNWFS'' k"

section \<open>Output discovery (the top-level \<^verbatim>\<open>beforeAll\<close> of the test file)\<close>

text \<open>
  The module-level variables \<^verbatim>\<open>bastionId\<close>, \<^verbatim>\<open>renderQueueEndpoints\<close> and
  \<^verbatim>\<open>secretARNs\<close>. They start as \<^verbatim>\<open>undefined\<close>, \<^verbatim>\<open>[]\<close> and \<^verbatim>\<open>[]\<close>.
\<close>

record discovered =
  bastionId :: "string option"
  renderQueueEndpoints :: "string js_array"
  secretARNs :: "string js_array"

definition initial :: discovered where
  "initial = \<lparr>bastionId = None, renderQueueEndpoints = [], secretARNs = []\<rparr>"

text \<open>A stack output: \<^verbatim>\<open>OutputKey\<close> and \<^verbatim>\<open>OutputValue\<close>.\<close>

type_synonym stack_output = "string \<times> string"

text \<open>How the \<^verbatim>\<open>switch(true)\<close> classifies a key: the first case that tests true.\<close>

datatype key_class = BastionKey | EndpointKey char | SecretKey char | Unrecognized

definition classify :: "string \<Rightarrow> key_class" where
  "classify outputKey =
     (if bastionRegex_test outputKey then BastionKey
      else case rqRegex_exec outputKey of
             Some testId \<Rightarrow> EndpointKey testId
           | None \<Rightarrow> (case certRegex_exec outputKey of
                        Some testId \<Rightarrow> SecretKey testId
                      | None \<Rightarrow> Unrecognized))"

text \<open>The body of \<^verbatim>\<open>stackOutput.forEach\<close>.\<close>

definition process_output :: "discovered \<Rightarrow> stack_output \<Rightarrow> discovered" where
  "process_output st output =
     (case output of (outputKey, outputValue) \<Rightarrow>
        (case classify outputKey of
           BastionKey \<Rightarrow> st\<lparr>bastionId := Some outputValue\<rparr>
         | EndpointKey testId \<Rightarrow>
             st\<lparr>renderQueueEndpoints :=
                  js_set (renderQueueEndpoints st) (digitValue testId) outputValue\<rparr>
         | SecretKey testId \<Rightarrow>
             st\<lparr>secretARNs := js_set (secretARNs st) (digitValue testId) outputValue\<rparr>
         | Unrecognized \<Rightarrow> st))"

definition discover_from :: "discovered \<Rightarrow> stack_output list \<Rightarrow> discovered" where
  "discover_from st stackOutput = foldl process_output st stackOutput"

definition discover :: "stack_output list \<Rightarrow> discovered" where
  "discover stackOutput = discover_from initial stackOutput"

section \<open>The suite hooks and tests, as the test file declares them\<close>

text \<open>
  \<^verbatim>\<open>AWS.config.region\<close> (possibly undefined) and the environment variable
  \<^verbatim>\<open>INTEG_STACK_TAG\<close>.
\<close>

text \<open>The suite number \<^verbatim>\<open>id\<close> of \<^verbatim>\<open>describe.each\<close> is written \<open>id_n\<close> below.\<close>

record test_env =
  region :: "string option"
  integStackTag :: string

definition testingStackName :: "test_env \<Rightarrow> string" where
  "testingStackName env = ''RFDKInteg-WFS-TestingTier'' @ integStackTag env"

text \<open>The \<^verbatim>\<open>params\<close> object handed to \<^verbatim>\<open>awaitSsmCommand\<close>.\<close>

record ssm_params =
  DocumentName :: string
  Comment :: string
  InstanceIds :: "string option list"
  commands :: "string list"

datatype error = Error string

definition quoted :: "string \<Rightarrow> string" where
  "quoted s = [CHR 0x27] @ s @ [CHR 0x27]"

definition shell_params :: "discovered \<Rightarrow> string \<Rightarrow> string \<Rightarrow> ssm_params" where
  "shell_params st comment script =
     \<lparr>DocumentName = ''AWS-RunShellScript'',
      Comment = comment,
      InstanceIds = [bastionId st],
      commands = [''sudo -i'', ''su - ec2-user >/dev/null'', ''cd ~ec2-user'', script]\<rparr>"

text \<open>
  The \<^verbatim>\<open>beforeAll\<close> of the \<^verbatim>\<open>describe.each\<close> block: \<open>Inr\<close> is the command it
  hands to \<^verbatim>\<open>awaitSsmCommand\<close>, \<open>Inl\<close> the error it throws instead.
\<close>

definition suite_beforeAll :: "test_env \<Rightarrow> discovered \<Rightarrow> nat \<Rightarrow> error + ssm_params" where
  "suite_beforeAll env st id_n =
     (if js_truthy (js_get (secretARNs st) id_n) then
        Inr (shell_params st ''Execute Test Script fetch-cert.sh''
               (''./utilScripts/fetch-cert.sh '' @ quoted (js_string (region env)) @ '' ''
                  @ quoted (js_string (js_get (secretARNs st) id_n))))
      else Inl (Error (''Did not find a secrect ARN for '' @ testingStackName env)))"

text \<open>The \<^verbatim>\<open>afterAll\<close> of the \<^verbatim>\<open>describe.each\<close> block.\<close>

definition suite_afterAll :: "discovered \<Rightarrow> ssm_params" where
  "suite_afterAll st =
     shell_params st ''Execute Test Script cleanup-cert.sh'' ''./utilScripts/cleanup-cert.sh''"

text \<open>The \<^verbatim>\<open>beforeAll\<close> of the nested block \<^verbatim>\<open>Worker node tests\<close>.\<close>

definition worker_beforeAll :: "discovered \<Rightarrow> nat \<Rightarrow> ssm_params" where
  "worker_beforeAll st id_n =
     shell_params st ''Execute Test Script configure-deadline.sh''
       (''./utilScripts/configure-deadline.sh ''
          @ quoted (js_string (js_get (renderQueueEndpoints st) id_n)))"

text \<open>
  What a test expects of \<^verbatim>\<open>response.output\<close>: \<^verbatim>\<open>toMatch\<close> with a pattern that
  succeeds exactly when a literal text occurs (\<^verbatim>\<open>/ip-.*/\<close> is such a pattern: \<^verbatim>\<open>.*\<close>
  also matches nothing), or \<^verbatim>\<open>expect(+responseOutput).toBe(n)\<close>.
\<close>

datatype expectation = ToMatch string | NumberToBe nat

record test_case =
  test_name :: string
  test_params :: ssm_params
  expected :: expectation

definition setConfigs :: "(nat \<times> string \<times> string) list" where
  "setConfigs = [(3, ''group'', ''-group testgroup''), (4, ''pool'', ''-pool testpool'')]"

definition dq :: "string \<Rightarrow> string" where
  "dq s = [CHR 0x22] @ s @ [CHR 0x22]"

definition set_test :: "discovered \<Rightarrow> nat \<Rightarrow> nat \<times> string \<times> string \<Rightarrow> test_case" where
  "set_test st id_n cfg =
     (case cfg of (n, name, arg) \<Rightarrow>
        \<lparr>test_name = ''WFS-'' @ toString id_n @ ''-'' @ toString n
             @ '': Workers can be assigned jobs submitted to a '' @ name,
         test_params =
           shell_params st (''Execute Test Script WFS-submit-jobs-to-sets.sh for '' @ name)
             (''./testScripts/WFS-submit-jobs-to-sets.sh '' @ dq name @ '' '' @ dq arg),
         expected = NumberToBe 1\<rparr>)"

text \<open>The tests of \<^verbatim>\<open>Worker node tests\<close>, in the order they are declared.\<close>

definition worker_tests :: "discovered \<Rightarrow> nat \<Rightarrow> test_case list" where
  "worker_tests st id_n =
     [\<lparr>test_name = ''WFS-'' @ toString id_n @ ''-1: Workers can be attached to the Render Queue'',
       test_params =
         shell_params st ''Execute Test Script WFS-report-workers.sh''
           ''./testScripts/WFS-report-workers.sh'',
       expected = ToMatch ''ip-''\<rparr>,
      \<lparr>test_name =
         ''WFS-'' @ toString id_n @ ''-2: Workers can be added to groups, pools and regions'',
       test_params =
         shell_params st ''Execute Test Script WFS-report-worker-sets.sh''
           ''./testScripts/WFS-report-worker-sets.sh'',
       expected = ToMatch (''testpool'' @ [CHR 0x0A] @ ''testgroup'' @ [CHR 0x0A] @ ''testregion'')\<rparr>]
     @ map (set_test st id_n) setConfigs"

text \<open>
  Whether the expectation holds of an output. \<open>toNumber\<close> stands for JavaScript's
  conversion of a string to a number by unary plus; \<open>None\<close> is any value that
  is not a natural number.
\<close>

definition expectation_holds :: "(string \<Rightarrow> nat option) \<Rightarrow> expectation \<Rightarrow> string \<Rightarrow> bool" where
  "expectation_holds toNumber e responseOutput =
     (case e of
        ToMatch lit \<Rightarrow> literal_test lit responseOutput
      | NumberToBe n \<Rightarrow> toNumber responseOutput = Some n)"

section \<open>The testing tier (\<^verbatim>\<open>testing-tier.ts\<close>)\<close>

text \<open>
  The stack is the value the \<^verbatim>\<open>configure\<close> methods change: the outputs created with
  \<^verbatim>\<open>new CfnOutput(this, id, {value})\<close> in creation order, what the bastion was granted
  read access to, the connections it was allowed, and the bastion instance's creation
  policy and user data. The user data is kept as the calls made on it, in order.
  The checks that the CDK makes itself, such as refusing a construct id that is used
  twice, are not part of the model.
\<close>

datatype duration = Minutes nat

record resource_signal =
  timeout :: duration
  count :: nat

record creation_policy =
  autoScalingCreationPolicy :: "nat option"
  resourceSignal :: "resource_signal option"

text \<open>An \<^verbatim>\<open>Asset\<close>: its construct id and the arguments of \<^verbatim>\<open>path.join\<close>.\<close>

record asset =
  asset_id :: string
  asset_path :: "string list"

datatype user_data_call =
    AddS3DownloadCommand asset
  | AddCommands "string list"
  | AddSignalOnExitCommand

datatype port = DefaultPort | Tcp nat

record testing_tier =
  cfnOutputs :: "(string \<times> string) list"
  readGrants :: "string list"
  connections :: "(string \<times> port) list"
  creationPolicy :: creation_policy
  userData :: "user_data_call list"

text \<open>
  What the class reads from outside: \<^verbatim>\<open>__dirname\<close>, the environment variables
  \<^verbatim>\<open>DEADLINE_VERSION\<close> and \<^verbatim>\<open>DEADLINE_STAGING_PATH\<close>, and the local path that
  \<^verbatim>\<open>addS3DownloadCommand\<close> returns for an asset.
\<close>

record tier_env =
  dirname :: string
  deadlineVersion :: string
  stagePath :: string
  s3LocalPath :: "asset \<Rightarrow> string"

record UserDataConfigProps =
  installDeadlineClient :: bool
  fetchDocdbCert :: bool
  testingScriptPath :: string

record X509CertificatePem =
  secretArn :: string

record RenderQueue =
  rq_node :: string
  portAsString :: string
  hostname :: string
  stackName :: string

subsection \<open>\<^verbatim>\<open>configureCert\<close>\<close>

definition configureCert ::
  "string \<Rightarrow> X509CertificatePem option \<Rightarrow> testing_tier \<Rightarrow> testing_tier" where
  "configureCert testSuiteId cert tier =
     (case cert of
        None \<Rightarrow> tier
      | Some c \<Rightarrow>
          tier\<lparr>readGrants := readGrants tier @ [secretArn c],
               cfnOutputs := cfnOutputs tier @ [(''certSecretARN'' @ testSuiteId, secretArn c)]\<rparr>)"

subsection \<open>\<^verbatim>\<open>configureRenderQueue\<close>\<close>

text \<open>The \<^verbatim>\<open>switch(port)\<close>: \<open>None\<close> is the \<^verbatim>\<open>address\<close> left undefined.\<close>

definition renderQueue_address :: "RenderQueue \<Rightarrow> string option" where
  "renderQueue_address renderQueue =
     (let port = portAsString renderQueue;
          zoneName = stackName renderQueue @ ''.local''
      in if port = ''8080'' then Some (hostname renderQueue)
         else if port = ''4433'' then Some (''renderqueue.'' @ zoneName)
         else None)"

definition configureRenderQueue :: "string \<Rightarrow> RenderQueue \<Rightarrow> testing_tier \<Rightarrow> testing_tier" where
  "configureRenderQueue testSuiteId renderQueue tier =
     (let port = portAsString renderQueue;
          address = renderQueue_address renderQueue;
          renderQueueEndpoint = js_string address @ '':'' @ port
      in tier\<lparr>connections :=
                 connections tier @ [(rq_node renderQueue, DefaultPort), (rq_node renderQueue, Tcp 22)],
               cfnOutputs :=
                 cfnOutputs tier @ [(''renderQueueEndpoint'' @ testSuiteId, renderQueueEndpoint)]\<rparr>)"

subsection \<open>\<^verbatim>\<open>configureWorkerFleet\<close> and the worker-fleet suites\<close>

definition configureWorkerFleet :: "string list \<Rightarrow> testing_tier \<Rightarrow> testing_tier" where
  "configureWorkerFleet workerFleet tier =
     tier\<lparr>connections := connections tier @ map (\<lambda>worker. (worker, Tcp 22)) workerFleet\<rparr>"

text \<open>
  A \<^verbatim>\<open>WorkerStruct\<close> object. \<^verbatim>\<open>indexOf\<close> compares objects by identity, so the record
  carries the identity of the object as \<open>ws_ref\<close>: two entries of a list are equal
  exactly if they are the same object.
\<close>

record WorkerStruct =
  ws_ref :: nat
  ws_renderQueue :: RenderQueue
  ws_cert :: "X509CertificatePem option"
  ws_workerFleet :: "string list"

text \<open>\<^verbatim>\<open>Array.prototype.indexOf\<close>: the first position of the element, \<open>-1\<close> if absent.\<close>

fun indexOf :: "'a list \<Rightarrow> 'a \<Rightarrow> int" where
  "indexOf [] x = -1"
| "indexOf (y # ys) x =
     (if y = x then 0 else (let r = indexOf ys x in if r = -1 then -1 else r + 1))"

text \<open>The body of \<^verbatim>\<open>structs.forEach\<close> in \<^verbatim>\<open>configureWorkerFleetTest\<close>.\<close>

definition workerFleet_suite :: "WorkerStruct list \<Rightarrow> testing_tier \<Rightarrow> WorkerStruct \<Rightarrow> testing_tier" where
  "workerFleet_suite structs tier workerStruct =
     (let testSuiteId = ''WF'' @ toString (nat (indexOf structs workerStruct + 1))
      in configureWorkerFleet (ws_workerFleet workerStruct)
           (configureCert testSuiteId (ws_cert workerStruct)
              (configureRenderQueue testSuiteId (ws_renderQueue workerStruct) tier)))"

subsection \<open>\<^verbatim>\<open>configureBastionUserData\<close>\<close>

definition instanceSetupScripts :: "tier_env \<Rightarrow> asset" where
  "instanceSetupScripts env =
     \<lparr>asset_id = ''SetupScripts'',
      asset_path = [dirname env, ''..'', ''components'', ''deadline'', ''common'', ''scripts'',
                    ''bastion'', ''setup'']\<rparr>"

definition clientInstaller :: "tier_env \<Rightarrow> asset" where
  "clientInstaller env =
     \<lparr>asset_id = ''ClientInstaller'',
      asset_path = [stagePath env, ''bin'',
                    ''DeadlineClient-'' @ deadlineVersion env @ ''-linux-x64-installer.run'']\<rparr>"

definition instanceUtilScripts :: "tier_env \<Rightarrow> asset" where
  "instanceUtilScripts env =
     \<lparr>asset_id = ''UtilScripts'',
      asset_path = [dirname env, ''..'', ''components'', ''deadline'', ''common'', ''scripts'',
                    ''bastion'', ''utils'']\<rparr>"

definition testingScripts :: "tier_env \<Rightarrow> UserDataConfigProps \<Rightarrow> asset" where
  "testingScripts env props =
     \<lparr>asset_id = ''TestingScripts'', asset_path = [dirname env, testingScriptPath props]\<rparr>"

definition setupZipPath :: "tier_env \<Rightarrow> string" where
  "setupZipPath env = s3LocalPath env (instanceSetupScripts env)"

definition installerPath :: "tier_env \<Rightarrow> string" where
  "installerPath env = s3LocalPath env (clientInstaller env)"

definition utilZipPath :: "tier_env \<Rightarrow> string" where
  "utilZipPath env = s3LocalPath env (instanceUtilScripts env)"

definition testsZipPath :: "tier_env \<Rightarrow> UserDataConfigProps \<Rightarrow> string" where
  "testsZipPath env props = s3LocalPath env (testingScripts env props)"

text \<open>The groups of commands pushed to \<^verbatim>\<open>userDataCommands\<close>, one definition for each push.\<close>

definition preamble_commands :: "string list" where
  "preamble_commands =
     [''set -xeou pipefail'', ''TMPDIR=$(mktemp -d)'', ''cd '' @ dq ''${TMPDIR}'']"

definition setup_commands :: "tier_env \<Rightarrow> string list" where
  "setup_commands env = [''unzip '' @ setupZipPath env, ''chmod +x *.sh'', ''./install_jq.sh'']"

definition client_install_commands :: "tier_env \<Rightarrow> string list" where
  "client_install_commands env =
     [''cp '' @ installerPath env @ '' ./deadline-client-installer.run'',
      ''chmod +x *.run'',
      ''./install_deadline_client.sh'',
      ''rm -f '' @ installerPath env]"

definition util_commands :: "tier_env \<Rightarrow> string list" where
  "util_commands env =
     [''cd ~ec2-user'', ''mkdir -p utilScripts'', ''cd utilScripts'',
      ''unzip '' @ utilZipPath env, ''chmod +x *.sh'', ''rm -f '' @ utilZipPath env]"

definition tests_commands :: "tier_env \<Rightarrow> UserDataConfigProps \<Rightarrow> string list" where
  "tests_commands env props =
     [''cd ~ec2-user'', ''mkdir -p testScripts'', ''cd testScripts'',
      ''unzip '' @ testsZipPath env props, ''chmod +x *.sh'', ''rm -f '' @ testsZipPath env props]"

definition docdb_cert_commands :: "string list" where
  "docdb_cert_commands =
     [''cd ~ec2-user'', ''mkdir -p testScripts'', ''cd testScripts'',
      ''wget https://s3.amazonaws.com/rds-downloads/rds-combined-ca-bundle.pem'']"

definition final_commands :: "string list" where
  "final_commands =
     [''cd ~ec2-user'', ''chown ec2-user.ec2-user -R *'', ''rm -rf '' @ dq ''${TMPDIR}'']"

text \<open>The array \<^verbatim>\<open>userDataCommands\<close> as it is when it is passed to \<^verbatim>\<open>addCommands\<close>.\<close>

definition userDataCommands :: "tier_env \<Rightarrow> UserDataConfigProps \<Rightarrow> string list" where
  "userDataCommands env props =
     preamble_commands
     @ setup_commands env
     @ (if installDeadlineClient props then client_install_commands env else [])
     @ [''rm -f '' @ setupZipPath env]
     @ util_commands env
     @ tests_commands env props
     @ (if fetchDocdbCert props then docdb_cert_commands else [])
     @ final_commands"

text \<open>The assets created, granted to the bastion and downloaded, in the order of the calls.\<close>

definition downloaded_assets :: "tier_env \<Rightarrow> UserDataConfigProps \<Rightarrow> asset list" where
  "downloaded_assets env props =
     [instanceSetupScripts env]
     @ (if installDeadlineClient props then [clientInstaller env] else [])
     @ [instanceUtilScripts env, testingScripts env props]"

definition configureBastionUserData ::
  "tier_env \<Rightarrow> UserDataConfigProps \<Rightarrow> testing_tier \<Rightarrow> testing_tier" where
  "configureBastionUserData env props tier =
     tier\<lparr>creationPolicy :=
            (creationPolicy tier)\<lparr>resourceSignal := Some \<lparr>timeout = Minutes 5, count = 1\<rparr>\<rparr>,
          readGrants := readGrants tier @ map asset_id (downloaded_assets env props),
          userData :=
            userData tier
            @ map AddS3DownloadCommand (downloaded_assets env props)
            @ [AddCommands (userDataCommands env props), AddSignalOnExitCommand]\<rparr>"

text \<open>\<^verbatim>\<open>configureWorkerFleetTest\<close>: every suite in turn, then the bastion's user data.\<close>

definition configureWorkerFleetTest ::
  "tier_env \<Rightarrow> WorkerStruct list \<Rightarrow> testing_tier \<Rightarrow> testing_tier" where
  "configureWorkerFleetTest env structs tier =
     configureBastionUserData env
       \<lparr>installDeadlineClient = True, fetchDocdbCert = False,
        testingScriptPath = ''../components/deadline/deadline_03_workerFleet/scripts/bastion/testing''\<rparr>
       (foldl (workerFleet_suite structs) tier structs)"

section \<open>The Suite Driver\<close>

text \<open>
  The test file only declares the hooks and the tests. What runs them, and what
  \<^verbatim>\<open>awaitSsmCommand\<close> does with a command, is not in the two source files, so the
  definitions of this section follow the specification; each says so.
\<close>

text \<open>
  Modelled from the spec: the terminal states of a \<open>CommandRun\<close> and its standard
  output (section 3).
\<close>

datatype run_state = Success | Failed | TimedOut

record command_run =
  state :: run_state
  stdout :: string

text \<open>
  Modelled from the spec: the remote command substrate of section 6, as the terminal
  state and output it reports for the \<open>n\<close>-th command submitted to it.
\<close>

type_synonym substrate = "nat \<Rightarrow> ssm_params \<Rightarrow> command_run"

text \<open>Modelled from the spec: the two command errors of section 7.\<close>

datatype failure = CommandFailed | CommandTimedOut

text \<open>
  Modelled from the spec: what awaiting the \<open>n\<close>-th command yields once it is
  terminal (section 4.4): the output on \<open>Success\<close>, a failure on \<open>Failed\<close> and
  \<open>TimedOut\<close>.
\<close>

definition command_result :: "substrate \<Rightarrow> nat \<Rightarrow> ssm_params \<Rightarrow> failure + string" where
  "command_result sub n params =
     (let run = sub n params
      in case state run of
           Success \<Rightarrow> Inr (stdout run)
         | Failed \<Rightarrow> Inl CommandFailed
         | TimedOut \<Rightarrow> Inl CommandTimedOut)"

text \<open>
  Modelled from the spec: \<^verbatim>\<open>awaitSsmCommand\<close> of
  \<^verbatim>\<open>common/functions/awaitSsmCommand\<close>, which the test file imports and which is
  not among the sources. Following sections 4.3 and 4.4, it dispatches the command
  and waits for its terminal state. The first component is the list of the commands
  dispatched so far.
\<close>

definition awaitSsmCommand ::
  "substrate \<Rightarrow> ssm_params list \<Rightarrow> ssm_params \<Rightarrow> ssm_params list \<times> (failure + string)" where
  "awaitSsmCommand sub dispatched params =
     (dispatched @ [params], command_result sub (length dispatched) params)"

text \<open>Modelled from the spec: the \<open>AssertionResult\<close> of section 3.\<close>

record assertion_result =
  suiteIndex :: nat
  testId :: string
  matched :: bool
  rawOutput :: string

text \<open>
  Modelled from the spec: the state \<open>SettingUp\<close> of section 4.5, run on the two
  setup hooks of the test file in the order of their blocks. Each command must
  succeed before the next is dispatched; the result says whether the setup
  completed.
\<close>

definition setting_up ::
  "substrate \<Rightarrow> test_env \<Rightarrow> discovered \<Rightarrow> nat \<Rightarrow> ssm_params list \<Rightarrow> ssm_params list \<times> bool" where
  "setting_up sub env st id_n dispatched =
     (case suite_beforeAll env st id_n of
        Inl e \<Rightarrow> (dispatched, False)
      | Inr fetch \<Rightarrow>
          (case awaitSsmCommand sub dispatched fetch of
             (d1, Inl f) \<Rightarrow> (d1, False)
           | (d1, Inr out) \<Rightarrow>
               (case awaitSsmCommand sub d1 (worker_beforeAll st id_n) of
                  (d2, Inl f) \<Rightarrow> (d2, False)
                | (d2, Inr out') \<Rightarrow> (d2, True))))"

text \<open>
  Modelled from the spec: the \<open>AssertionResult\<close> of section 3 for one test, from the
  outcome of its own command. The output is matched against what the test expects; a
  command that failed counts as an assertion that did not match.
\<close>

definition assertion ::
  "(string \<Rightarrow> nat option) \<Rightarrow> nat \<Rightarrow> test_case \<Rightarrow> failure + string \<Rightarrow> assertion_result" where
  "assertion toNumber id_n t outcome =
     (case outcome of
        Inl f \<Rightarrow>
          \<lparr>suiteIndex = id_n, testId = test_name t, matched = False, rawOutput = []\<rparr>
      | Inr out \<Rightarrow>
          \<lparr>suiteIndex = id_n, testId = test_name t,
           matched = expectation_holds toNumber (expected t) out, rawOutput = out\<rparr>)"

text \<open>
  Modelled from the spec: one step of the state \<open>Running\<close> of section 4.5. The
  assertion's command is dispatched and awaited and its own result is recorded,
  whatever the results before it are.
\<close>

definition run_test ::
  "substrate \<Rightarrow> (string \<Rightarrow> nat option) \<Rightarrow> nat \<Rightarrow>
   ssm_params list \<times> assertion_result list \<Rightarrow> test_case \<Rightarrow>
   ssm_params list \<times> assertion_result list" where
  "run_test sub toNumber id_n acc t =
     (case acc of (dispatched, results) \<Rightarrow>
        (case awaitSsmCommand sub dispatched (test_params t) of
           (d, outcome) \<Rightarrow> (d, results @ [assertion toNumber id_n t outcome])))"

text \<open>
  Modelled from the spec: what the run of one suite leaves behind: the commands
  dispatched, the results of the assertions and whether the setup completed.
\<close>

record suite_run =
  dispatched :: "ssm_params list"
  results :: "assertion_result list"
  setup_completed :: bool

text \<open>
  Modelled from the spec: the state machine of section 4.5 for one suite.
  \<open>SettingUp\<close>; then, only if the setup completed, \<open>Running\<close> over the tests in their
  declared order; then \<open>TearingDown\<close>, which is always attempted.
\<close>

definition run_suite ::
  "substrate \<Rightarrow> (string \<Rightarrow> nat option) \<Rightarrow> test_env \<Rightarrow> discovered \<Rightarrow> nat \<Rightarrow>
   ssm_params list \<Rightarrow> suite_run" where
  "run_suite sub toNumber env st id_n d0 =
     (case setting_up sub env st id_n d0 of
        (d1, ok) \<Rightarrow>
          (case (if ok then foldl (run_test sub toNumber id_n) (d1, []) (worker_tests st id_n)
                 else (d1, [])) of
             (d2, rs) \<Rightarrow>
               \<lparr>dispatched = fst (awaitSsmCommand sub d2 (suite_afterAll st)),
                results = rs,
                setup_completed = ok\<rparr>))"

section \<open>Key shapes of the external interface\<close>

text \<open>
  The specification's shape of a suite-indexed key, for comparison with what the
  regular expressions accept: a prefix, the suite code \<^verbatim>\<open>WFS\<close> and the decimal digits
  of the suite index.
\<close>

definition suite_key :: "string \<Rightarrow> nat \<Rightarrow> string" where
  "suite_key prefix i = prefix @ ''WFS'' @ toString i"

text \<open>
  The keys of that shape whose index is a single digit, together with the bare
  host-identifier key.
\<close>

definition single_digit_key :: "string \<Rightarrow> bool" where
  "single_digit_key k =
     (k = ''bastionId''
      \<or> k \<in> set (map (suite_key ''renderQueueEndpoint'') [0..<10])
      \<or> k \<in> set (map (suite_key ''CertSecretARN'') [0..<10]))"

section \<open>Properties of output discovery\<close>

lemma js_get_js_set: "js_get (js_set xs i v) j = (if j = i then Some v else js_get xs j)"
  by (auto simp: js_get_def js_set_def nth_append)

lemma lt10_cases:
  "i < 10 \<Longrightarrow> i = 0 \<or> i = 1 \<or> i = 2 \<or> i = 3 \<or> i = 4 \<or> i = 5 \<or> i = 6 \<or> i = 7 \<or> i = 8 \<or> i = (9::nat)"
  by arith

lemma toString_digit: "n < 10 \<Longrightarrow> toString n = [digitChar n]"
  by (simp add: toString.simps)

lemma digitValue_digitChar: "i < 10 \<Longrightarrow> digitValue (digitChar i) = i"
  by (drule lt10_cases) (auto simp: digitValue_def digitChar_def)

lemma digitChar_inj: "i < 10 \<Longrightarrow> j < 10 \<Longrightarrow> digitChar i = digitChar j \<Longrightarrow> i = j"
  by (metis digitValue_digitChar)

lemma classify_bastionId: "classify ''bastionId'' = BastionKey"
  by (simp add: classify_def bastionRegex_test_def)

lemma classify_endpoint:
  "i < 10 \<Longrightarrow> classify (suite_key ''renderQueueEndpoint'' i) = EndpointKey (digitChar i)"
  by (drule lt10_cases)
     (auto simp: classify_def bastionRegex_test_def rqRegex_exec_def suite_key_def
        toString_digit digitChar_def literal_digit_here_def isDigit_def)

lemma classify_secret:
  "i < 10 \<Longrightarrow> classify (suite_key ''CertSecretARN'' i) = SecretKey (digitChar i)"
  by (drule lt10_cases)
     (auto simp: classify_def bastionRegex_test_def rqRegex_exec_def certRegex_exec_def suite_key_def
        toString_digit digitChar_def literal_digit_here_def isDigit_def)

lemma suite_key_digit: "i < 10 \<Longrightarrow> suite_key p i = p @ ''WFS'' @ [digitChar i]"
  by (simp add: suite_key_def toString_digit)

lemma single_digit_key_cases:
  assumes "single_digit_key k"
  obtains "k = ''bastionId''"
  | i where "i < 10" "k = suite_key ''renderQueueEndpoint'' i"
  | i where "i < 10" "k = suite_key ''CertSecretARN'' i"
  using assms unfolding single_digit_key_def by auto

lemma discover_from_snoc:
  "discover_from st (outs @ [x]) = process_output (discover_from st outs) x"
  by (simp add: discover_from_def)

lemma suite_key_ne_bastion:
  "i < 10 \<Longrightarrow> suite_key ''renderQueueEndpoint'' i \<noteq> ''bastionId''"
  "i < 10 \<Longrightarrow> suite_key ''CertSecretARN'' i \<noteq> ''bastionId''"
  "i < 10 \<Longrightarrow> ''bastionId'' \<noteq> suite_key ''renderQueueEndpoint'' i"
  "i < 10 \<Longrightarrow> ''bastionId'' \<noteq> suite_key ''CertSecretARN'' i"
  by (simp_all add: suite_key_digit)

lemma suite_key_ne_other:
  "i < 10 \<Longrightarrow> j < 10 \<Longrightarrow> suite_key ''renderQueueEndpoint'' i \<noteq> suite_key ''CertSecretARN'' j"
  "i < 10 \<Longrightarrow> j < 10 \<Longrightarrow> suite_key ''CertSecretARN'' i \<noteq> suite_key ''renderQueueEndpoint'' j"
  by (simp_all add: suite_key_digit)

lemma suite_key_eq_iff:
  "i < 10 \<Longrightarrow> j < 10 \<Longrightarrow> suite_key p i = suite_key p j \<longleftrightarrow> i = j"
  by (auto simp: suite_key_digit dest: digitChar_inj)

lemmas classify_keys = classify_bastionId classify_endpoint classify_secret
lemmas suite_key_distinct = suite_key_ne_bastion suite_key_ne_other suite_key_eq_iff

lemma process_bastionId:
  assumes "single_digit_key k"
  shows "bastionId (process_output st (k, v)) = (if k = ''bastionId'' then Some v else bastionId st)"
  using assms
proof (cases rule: single_digit_key_cases)
  case 1
  then show ?thesis by (simp add: process_output_def classify_keys)
next
  case (2 i)
  then show ?thesis by (auto simp add: process_output_def classify_keys suite_key_distinct)
next
  case (3 i)
  then show ?thesis by (auto simp add: process_output_def classify_keys suite_key_distinct)
qed

lemma process_endpoints:
  assumes "single_digit_key k"
  shows "js_get (renderQueueEndpoints (process_output st (k, v))) i =
           (if i < 10 \<and> k = suite_key ''renderQueueEndpoint'' i then Some v
            else js_get (renderQueueEndpoints st) i)"
  using assms
proof (cases rule: single_digit_key_cases)
  case 1
  then show ?thesis by (auto simp add: process_output_def classify_keys suite_key_distinct)
next
  case (2 j)
  then show ?thesis
    by (cases "i < 10")
       (auto simp add: process_output_def classify_keys suite_key_distinct js_get_js_set
          digitValue_digitChar)
next
  case (3 j)
  then show ?thesis by (auto simp add: process_output_def classify_keys suite_key_distinct)
qed

lemma process_secrets:
  assumes "single_digit_key k"
  shows "js_get (secretARNs (process_output st (k, v))) i =
           (if i < 10 \<and> k = suite_key ''CertSecretARN'' i then Some v
            else js_get (secretARNs st) i)"
  using assms
proof (cases rule: single_digit_key_cases)
  case 1
  then show ?thesis by (auto simp add: process_output_def classify_keys suite_key_distinct)
next
  case (2 j)
  then show ?thesis by (auto simp add: process_output_def classify_keys suite_key_distinct)
next
  case (3 j)
  then show ?thesis
    by (cases "i < 10")
       (auto simp add: process_output_def classify_keys suite_key_distinct js_get_js_set
          digitValue_digitChar)
qed


lemma discover_from_bastionId:
  assumes "\<forall>kv \<in> set outs. single_digit_key (fst kv)"
  shows "bastionId (discover_from st outs) =
           (case map_of (rev outs) ''bastionId'' of Some v \<Rightarrow> Some v | None \<Rightarrow> bastionId st)"
  using assms
proof (induction outs rule: rev_induct)
  case Nil
  show ?case by (simp add: discover_from_def)
next
  case (snoc x xs)
  obtain k v where x: "x = (k, v)" by (cases x)
  with snoc.prems have "single_digit_key k" by simp
  with snoc x show ?case
    by (simp add: discover_from_snoc process_bastionId)
qed

lemma discover_from_endpoints:
  assumes "\<forall>kv \<in> set outs. single_digit_key (fst kv)"
  shows "js_get (renderQueueEndpoints (discover_from st outs)) i =
           (case (if i < 10 then map_of (rev outs) (suite_key ''renderQueueEndpoint'' i) else None) of
              Some v \<Rightarrow> Some v | None \<Rightarrow> js_get (renderQueueEndpoints st) i)"
  using assms
proof (induction outs rule: rev_induct)
  case Nil
  show ?case by (simp add: discover_from_def)
next
  case (snoc x xs)
  obtain k v where x: "x = (k, v)" by (cases x)
  with snoc.prems have "single_digit_key k" by simp
  with snoc x show ?case
    by (simp add: discover_from_snoc process_endpoints)
qed

lemma discover_from_secrets:
  assumes "\<forall>kv \<in> set outs. single_digit_key (fst kv)"
  shows "js_get (secretARNs (discover_from st outs)) i =
           (case (if i < 10 then map_of (rev outs) (suite_key ''CertSecretARN'' i) else None) of
              Some v \<Rightarrow> Some v | None \<Rightarrow> js_get (secretARNs st) i)"
  using assms
proof (induction outs rule: rev_induct)
  case Nil
  show ?case by (simp add: discover_from_def)
next
  case (snoc x xs)
  obtain k v where x: "x = (k, v)" by (cases x)
  with snoc.prems have "single_digit_key k" by simp
  with snoc x show ?case
    by (simp add: discover_from_snoc process_secrets)
qed

lemma js_get_initial:
  "js_get (renderQueueEndpoints initial) i = None" "js_get (secretARNs initial) i = None"
  by (simp_all add: initial_def js_get_def)

text \<open>
  Claim C4, for indices of one digit. Let every key of the raw outputs be the bare
  host-identifier key or a suite-indexed key whose index is a single digit, and let
  the host-identifier key be among them. Then discovery finds the host identifier, and
  for every index \<open>i\<close> the slot \<open>i\<close> of the endpoint table holds exactly the value of
  the endpoint key with index \<open>i\<close> (the last one, should the key be repeated), and is
  empty if there is no such key; likewise for the secret references. So the suite
  context of an index has exactly the fields whose keys existed, each stored at the
  position of its index, and an index has a context exactly if a key carries it.
\<close>

theorem discovery_single_digit:
  assumes "\<forall>kv \<in> set outs. single_digit_key (fst kv)"
      and "''bastionId'' \<in> fst ` set outs"
  shows "bastionId (discover outs) = map_of (rev outs) ''bastionId''
       \<and> bastionId (discover outs) \<noteq> None
       \<and> (\<forall>i. js_get (renderQueueEndpoints (discover outs)) i =
                (if i < 10 then map_of (rev outs) (suite_key ''renderQueueEndpoint'' i) else None))
       \<and> (\<forall>i. js_get (secretARNs (discover outs)) i =
                (if i < 10 then map_of (rev outs) (suite_key ''CertSecretARN'' i) else None))"
proof -
  from assms(2) have "''bastionId'' \<in> fst ` set (rev outs)" by simp
  then obtain v where v: "map_of (rev outs) ''bastionId'' = Some v"
    by (metis domD dom_map_of_conv_image_fst)
  have b: "bastionId (discover outs) = map_of (rev outs) ''bastionId''"
    using v by (simp add: discover_def discover_from_bastionId [OF assms(1)])
  have e: "js_get (renderQueueEndpoints (discover outs)) i =
             (if i < 10 then map_of (rev outs) (suite_key ''renderQueueEndpoint'' i) else None)" for i
    using js_get_initial
    by (simp add: discover_def discover_from_endpoints [OF assms(1)] split: option.split)
  have s: "js_get (secretARNs (discover outs)) i =
             (if i < 10 then map_of (rev outs) (suite_key ''CertSecretARN'' i) else None)" for i
    using js_get_initial
    by (simp add: discover_def discover_from_secrets [OF assms(1)] split: option.split)
  from b v e s show ?thesis by simp
qed

text \<open>The outputs of the end-to-end scenario of the specification satisfy the hypotheses.\<close>

theorem discovery_single_digit_witness:
  "js_get (renderQueueEndpoints (discover
      [(''bastionId'', ''i-1''), (''renderQueueEndpointWFS1'', ''rq1.local:4433''),
       (''CertSecretARNWFS1'', ''arn:secret:1'')])) 1 = Some ''rq1.local:4433''
   \<and> js_get (secretARNs (discover
      [(''bastionId'', ''i-1''), (''renderQueueEndpointWFS1'', ''rq1.local:4433''),
       (''CertSecretARNWFS1'', ''arn:secret:1'')])) 1 = Some ''arn:secret:1''
   \<and> js_get (secretARNs (discover
      [(''bastionId'', ''i-1''), (''renderQueueEndpointWFS1'', ''rq1.local:4433''),
       (''CertSecretARNWFS1'', ''arn:secret:1'')])) 2 = None
   \<and> bastionId (discover
      [(''bastionId'', ''i-1''), (''renderQueueEndpointWFS1'', ''rq1.local:4433''),
       (''CertSecretARNWFS1'', ''arn:secret:1'')]) = Some ''i-1''"
proof -
  let ?outs = "[(''bastionId'', ''i-1''), (''renderQueueEndpointWFS1'', ''rq1.local:4433''),
       (''CertSecretARNWFS1'', ''arn:secret:1'')]"
  have k: "single_digit_key ''bastionId''" "single_digit_key ''renderQueueEndpointWFS1''"
    "single_digit_key ''CertSecretARNWFS1''"
    by code_simp+
  have h1: "\<forall>kv \<in> set ?outs. single_digit_key (fst kv)"
    using k by simp
  have h2: "''bastionId'' \<in> fst ` set ?outs" by simp
  have r1: "suite_key ''renderQueueEndpoint'' 1 = ''renderQueueEndpointWFS1''"
    and s1: "suite_key ''CertSecretARN'' 1 = ''CertSecretARNWFS1''"
    and s2: "suite_key ''CertSecretARN'' 2 = ''CertSecretARNWFS2''"
    by (simp_all add: suite_key_def toString.simps digitChar_def)
  note t = discovery_single_digit [OF h1 h2]
  have b: "bastionId (discover ?outs) = map_of (rev ?outs) ''bastionId''"
    using t by blast
  have e1: "js_get (renderQueueEndpoints (discover ?outs)) 1 =
      (if (1::nat) < 10 then map_of (rev ?outs) (suite_key ''renderQueueEndpoint'' 1) else None)"
    using t by blast
  have a1: "js_get (secretARNs (discover ?outs)) 1 =
      (if (1::nat) < 10 then map_of (rev ?outs) (suite_key ''CertSecretARN'' 1) else None)"
    using t by blast
  have a2: "js_get (secretARNs (discover ?outs)) 2 =
      (if (2::nat) < 10 then map_of (rev ?outs) (suite_key ''CertSecretARN'' 2) else None)"
    using t by blast
  show ?thesis
    using b e1 a1 a2 unfolding r1 s1 s2 by simp
qed

text \<open>
  Claim C4 as it is stated, with an index of more than one digit: the pattern captures
  a single digit, so the value of the key with index 12 is stored in slot 1, and slot
  12 stays empty.
\<close>

theorem discovery_two_digit_counterexample:
  "suite_key ''renderQueueEndpoint'' 12 = ''renderQueueEndpointWFS12''
   \<and> js_get (renderQueueEndpoints (discover
        [(''bastionId'', ''i-1''), (''renderQueueEndpointWFS12'', ''rq12.local:4433'')])) 12 = None
   \<and> js_get (renderQueueEndpoints (discover
        [(''bastionId'', ''i-1''), (''renderQueueEndpointWFS12'', ''rq12.local:4433'')])) 1
       = Some ''rq12.local:4433''"
proof -
  have k: "suite_key ''renderQueueEndpoint'' 12 = ''renderQueueEndpointWFS12''"
    by (simp add: suite_key_def toString.simps digitChar_def)
  have c: "classify ''renderQueueEndpointWFS12'' = EndpointKey (CHR ''1'')"
    by (simp add: classify_def bastionRegex_test_def rqRegex_exec_def literal_digit_here_def
          isDigit_def)
  have d: "renderQueueEndpoints (discover
        [(''bastionId'', ''i-1''), (''renderQueueEndpointWFS12'', ''rq12.local:4433'')])
       = [None, Some ''rq12.local:4433'']"
    by (simp add: discover_def discover_from_def initial_def process_output_def
          classify_bastionId c digitValue_def js_set_def)
  show ?thesis unfolding d using k by (simp add: js_get_def)
qed

text \<open>
  Claim C8. A raw key that matches none of the three recognized patterns is ignored:
  processing it leaves the discovered host identifier, the endpoint table and the
  secret-reference table unchanged.
\<close>

theorem unrecognized_key_ignored:
  "\<not> bastionRegex_test k \<Longrightarrow> rqRegex_exec k = None \<Longrightarrow> certRegex_exec k = None \<Longrightarrow>
   process_output st (k, v) = st"
  by (simp add: process_output_def classify_def)

text \<open>A log-group output of another suite is such a key.\<close>

theorem unrecognized_key_ignored_witness:
  "\<not> bastionRegex_test ''logGroupNameDL1'' \<and> rqRegex_exec ''logGroupNameDL1'' = None
   \<and> certRegex_exec ''logGroupNameDL1'' = None
   \<and> process_output initial (''logGroupNameDL1'', ''/aws/logs'') = initial"
proof -
  have h1: "\<not> bastionRegex_test ''logGroupNameDL1''"
    by (simp add: bastionRegex_test_def)
  have h2: "rqRegex_exec ''logGroupNameDL1'' = None"
    by (simp add: rqRegex_exec_def literal_digit_here_def)
  have h3: "certRegex_exec ''logGroupNameDL1'' = None"
    by (simp add: certRegex_exec_def literal_digit_here_def)
  from h1 h2 h3 unrecognized_key_ignored [OF h1 h2 h3, of initial "''/aws/logs''"]
  show ?thesis by simp
qed

lemma process_secret_untouched:
  assumes "\<forall>d. classify k = SecretKey d \<longrightarrow> digitValue d \<noteq> i"
  shows "js_get (secretARNs (process_output st (k, v))) i = js_get (secretARNs st) i"
  using assms by (cases "classify k") (simp_all add: process_output_def js_get_js_set)

lemma discover_from_secret_untouched:
  assumes "\<forall>kv \<in> set outs. \<forall>d. classify (fst kv) = SecretKey d \<longrightarrow> digitValue d \<noteq> i"
  shows "js_get (secretARNs (discover_from st outs)) i = js_get (secretARNs st) i"
  using assms
proof (induction outs rule: rev_induct)
  case Nil
  show ?case by (simp add: discover_from_def)
next
  case (snoc x xs)
  obtain k v where x: "x = (k, v)" by (cases x)
  with snoc.prems have "\<forall>d. classify k = SecretKey d \<longrightarrow> digitValue d \<noteq> i" by simp
  with snoc x show ?case
    by (simp add: discover_from_snoc process_secret_untouched)
qed

text \<open>
  Claim C6. For every index \<open>i\<close>: if no secret reference was discovered for \<open>i\<close>, the
  suite setup raises an error instead of handing a fetch command to the command
  channel. That is so in any discovered state whose slot \<open>i\<close> is empty, and in
  particular after discovery from outputs none of whose keys is a secret-reference key
  with index \<open>i\<close>.
\<close>

theorem missing_secret_raises:
  "(js_get (secretARNs st) i = None \<longrightarrow>
      suite_beforeAll env st i =
        Inl (Error (''Did not find a secrect ARN for '' @ testingStackName env)))
   \<and> ((\<forall>kv \<in> set outs. \<forall>d. classify (fst kv) = SecretKey d \<longrightarrow> digitValue d \<noteq> i) \<longrightarrow>
      suite_beforeAll env (discover outs) i =
        Inl (Error (''Did not find a secrect ARN for '' @ testingStackName env)))"
proof -
  have a: "suite_beforeAll env s i =
        Inl (Error (''Did not find a secrect ARN for '' @ testingStackName env))"
    if "js_get (secretARNs s) i = None" for s
    using that by (simp add: suite_beforeAll_def js_truthy_def)
  have b: "js_get (secretARNs (discover outs)) i = None"
    if "\<forall>kv \<in> set outs. \<forall>d. classify (fst kv) = SecretKey d \<longrightarrow> digitValue d \<noteq> i"
    using discover_from_secret_untouched [OF that, of initial] js_get_initial
    by (simp add: discover_def)
  from a b show ?thesis by blast
qed

text \<open>Suite 2 when only suite 1 has a certificate secret.\<close>

theorem missing_secret_raises_witness:
  "js_get (secretARNs (discover [(''bastionId'', ''i-1''), (''CertSecretARNWFS1'', ''arn:secret:1'')])) 2 = None
   \<and> suite_beforeAll \<lparr>region = Some ''us-west-2'', integStackTag = ''42''\<rparr>
        (discover [(''bastionId'', ''i-1''), (''CertSecretARNWFS1'', ''arn:secret:1'')]) 2 =
      Inl (Error ''Did not find a secrect ARN for RFDKInteg-WFS-TestingTier42'')"
proof -
  let ?outs = "[(''bastionId'', ''i-1''), (''CertSecretARNWFS1'', ''arn:secret:1'')]"
  let ?env = "\<lparr>region = Some ''us-west-2'', integStackTag = ''42''\<rparr>"
  have c1: "classify ''bastionId'' = BastionKey"
    by (simp add: classify_def bastionRegex_test_def)
  have c2: "classify ''CertSecretARNWFS1'' = SecretKey (CHR ''1'')"
    by (simp add: classify_def bastionRegex_test_def rqRegex_exec_def certRegex_exec_def
          literal_digit_here_def isDigit_def)
  have h: "\<forall>kv \<in> set ?outs. \<forall>d. classify (fst kv) = SecretKey d \<longrightarrow> digitValue d \<noteq> 2"
    by (simp add: c1 c2 digitValue_def)
  have n: "js_get (secretARNs (discover ?outs)) 2 = None"
    by (simp add: discover_def discover_from_def initial_def process_output_def c1 c2
          digitValue_def js_set_def js_get_def)
  from missing_secret_raises [of "discover ?outs" 2 ?env ?outs] n h
  show ?thesis by (simp add: testingStackName_def)
qed

section \<open>Properties of the testing tier\<close>

text \<open>
  Claim C5. \<^verbatim>\<open>configureRenderQueue\<close> takes as the address of the render-queue endpoint
  the endpoint's host name for port \<^verbatim>\<open>8080\<close> and \<^verbatim>\<open>renderqueue.<stack name>.local\<close>
  for port \<^verbatim>\<open>4433\<close>, and leaves it unassigned for every other port. In each case no
  error is raised and the endpoint output it creates is the address, a colon and the
  port, with the text \<^verbatim>\<open>undefined\<close> for an unassigned address. For every port it
  allows the two connections to the render queue and changes nothing else.
\<close>

theorem render_queue_address:
  "(portAsString rq = ''8080'' \<longrightarrow>
        renderQueue_address rq = Some (hostname rq)
        \<and> cfnOutputs (configureRenderQueue testSuiteId rq tier) =
            cfnOutputs tier
            @ [(''renderQueueEndpoint'' @ testSuiteId, hostname rq @ '':8080'')])
   \<and> (portAsString rq = ''4433'' \<longrightarrow>
        renderQueue_address rq = Some (''renderqueue.'' @ stackName rq @ ''.local'')
        \<and> cfnOutputs (configureRenderQueue testSuiteId rq tier) =
            cfnOutputs tier
            @ [(''renderQueueEndpoint'' @ testSuiteId,
                ''renderqueue.'' @ stackName rq @ ''.local:4433'')])
   \<and> (portAsString rq \<noteq> ''8080'' \<and> portAsString rq \<noteq> ''4433'' \<longrightarrow>
        renderQueue_address rq = None
        \<and> cfnOutputs (configureRenderQueue testSuiteId rq tier) =
            cfnOutputs tier
            @ [(''renderQueueEndpoint'' @ testSuiteId, ''undefined:'' @ portAsString rq)])
   \<and> connections (configureRenderQueue testSuiteId rq tier) =
        connections tier @ [(rq_node rq, DefaultPort), (rq_node rq, Tcp 22)]
   \<and> readGrants (configureRenderQueue testSuiteId rq tier) = readGrants tier
   \<and> userData (configureRenderQueue testSuiteId rq tier) = userData tier
   \<and> creationPolicy (configureRenderQueue testSuiteId rq tier) = creationPolicy tier"
  by (simp add: renderQueue_address_def configureRenderQueue_def js_string_def Let_def)

text \<open>One render queue for each of the three cases, with the output it gets.\<close>

theorem render_queue_address_witness:
  "cfnOutputs (configureRenderQueue ''WF1''
        \<lparr>rq_node = ''RQ'', portAsString = ''8080'', hostname = ''rq.example'', stackName = ''Farm''\<rparr>
        \<lparr>cfnOutputs = [(''bastionId'', ''i-1'')], readGrants = [], connections = [],
         creationPolicy = \<lparr>autoScalingCreationPolicy = None, resourceSignal = None\<rparr>,
         userData = []\<rparr>)
     = [(''bastionId'', ''i-1''), (''renderQueueEndpointWF1'', ''rq.example:8080'')]
   \<and> cfnOutputs (configureRenderQueue ''WF1''
        \<lparr>rq_node = ''RQ'', portAsString = ''4433'', hostname = ''rq.example'', stackName = ''Farm''\<rparr>
        \<lparr>cfnOutputs = [(''bastionId'', ''i-1'')], readGrants = [], connections = [],
         creationPolicy = \<lparr>autoScalingCreationPolicy = None, resourceSignal = None\<rparr>,
         userData = []\<rparr>)
     = [(''bastionId'', ''i-1''), (''renderQueueEndpointWF1'', ''renderqueue.Farm.local:4433'')]
   \<and> cfnOutputs (configureRenderQueue ''WF1''
        \<lparr>rq_node = ''RQ'', portAsString = ''443'', hostname = ''rq.example'', stackName = ''Farm''\<rparr>
        \<lparr>cfnOutputs = [(''bastionId'', ''i-1'')], readGrants = [], connections = [],
         creationPolicy = \<lparr>autoScalingCreationPolicy = None, resourceSignal = None\<rparr>,
         userData = []\<rparr>)
     = [(''bastionId'', ''i-1''), (''renderQueueEndpointWF1'', ''undefined:443'')]
   \<and> renderQueue_address
        \<lparr>rq_node = ''RQ'', portAsString = ''8080'', hostname = ''rq.example'', stackName = ''Farm''\<rparr>
     = Some ''rq.example''
   \<and> renderQueue_address
        \<lparr>rq_node = ''RQ'', portAsString = ''4433'', hostname = ''rq.example'', stackName = ''Farm''\<rparr>
     = Some ''renderqueue.Farm.local''
   \<and> renderQueue_address
        \<lparr>rq_node = ''RQ'', portAsString = ''443'', hostname = ''rq.example'', stackName = ''Farm''\<rparr>
     = None"
proof -
  let ?tier = "\<lparr>cfnOutputs = [(''bastionId'', ''i-1'')], readGrants = [], connections = [],
         creationPolicy = \<lparr>autoScalingCreationPolicy = None, resourceSignal = None\<rparr>,
         userData = []\<rparr>"
  note a = render_queue_address [where tier = ?tier and testSuiteId = "''WF1''" and
      rq = "\<lparr>rq_node = ''RQ'', portAsString = ''8080'', hostname = ''rq.example'', stackName = ''Farm''\<rparr>"]
  note b = render_queue_address [where tier = ?tier and testSuiteId = "''WF1''" and
      rq = "\<lparr>rq_node = ''RQ'', portAsString = ''4433'', hostname = ''rq.example'', stackName = ''Farm''\<rparr>"]
  note c = render_queue_address [where tier = ?tier and testSuiteId = "''WF1''" and
      rq = "\<lparr>rq_node = ''RQ'', portAsString = ''443'', hostname = ''rq.example'', stackName = ''Farm''\<rparr>"]
  from a b c show ?thesis by simp
qed

lemmas command_groups =
  preamble_commands_def setup_commands_def client_install_commands_def util_commands_def
  tests_commands_def docdb_cert_commands_def final_commands_def

text \<open>
  Claim C2. Without the client installation and with the trust-bundle download, the
  command sequence has exactly one trust-bundle download step, which comes after the
  unpacking of the test scripts and before the final ownership fix-up; the client
  installer is neither downloaded nor run.
\<close>

theorem trust_bundle_position:
  assumes "\<not> installDeadlineClient props" and "fetchDocdbCert props"
  shows
    "(\<exists>pre.
        userDataCommands env props =
          pre
          @ [''unzip '' @ testsZipPath env props, ''chmod +x *.sh'',
             ''rm -f '' @ testsZipPath env props,
             ''cd ~ec2-user'', ''mkdir -p testScripts'', ''cd testScripts'',
             ''wget https://s3.amazonaws.com/rds-downloads/rds-combined-ca-bundle.pem'',
             ''cd ~ec2-user'', ''chown ec2-user.ec2-user -R *'', ''rm -rf '' @ dq ''${TMPDIR}'']
        \<and> ''wget https://s3.amazonaws.com/rds-downloads/rds-combined-ca-bundle.pem'' \<notin> set pre)
     \<and> count_list (userDataCommands env props)
          ''wget https://s3.amazonaws.com/rds-downloads/rds-combined-ca-bundle.pem'' = 1
     \<and> ''./install_deadline_client.sh'' \<notin> set (userDataCommands env props)
     \<and> userData (configureBastionUserData env props tier) =
          userData tier
          @ [AddS3DownloadCommand (instanceSetupScripts env),
             AddS3DownloadCommand (instanceUtilScripts env),
             AddS3DownloadCommand (testingScripts env props),
             AddCommands (userDataCommands env props),
             AddSignalOnExitCommand]"
proof -
  let ?wget = "''wget https://s3.amazonaws.com/rds-downloads/rds-combined-ca-bundle.pem''"
  let ?pre = "preamble_commands @ setup_commands env @ [''rm -f '' @ setupZipPath env]
              @ util_commands env @ [''cd ~ec2-user'', ''mkdir -p testScripts'', ''cd testScripts'']"
  have "userDataCommands env props =
          ?pre
          @ [''unzip '' @ testsZipPath env props, ''chmod +x *.sh'',
             ''rm -f '' @ testsZipPath env props,
             ''cd ~ec2-user'', ''mkdir -p testScripts'', ''cd testScripts'', ?wget,
             ''cd ~ec2-user'', ''chown ec2-user.ec2-user -R *'', ''rm -rf '' @ dq ''${TMPDIR}'']"
    using assms by (simp add: userDataCommands_def command_groups)
  moreover have "?wget \<notin> set ?pre"
    by (simp add: command_groups)
  ultimately have position: "\<exists>pre.
        userDataCommands env props =
          pre
          @ [''unzip '' @ testsZipPath env props, ''chmod +x *.sh'',
             ''rm -f '' @ testsZipPath env props,
             ''cd ~ec2-user'', ''mkdir -p testScripts'', ''cd testScripts'', ?wget,
             ''cd ~ec2-user'', ''chown ec2-user.ec2-user -R *'', ''rm -rf '' @ dq ''${TMPDIR}'']
        \<and> ?wget \<notin> set pre"
    by blast
  have once: "count_list (userDataCommands env props) ?wget = 1"
    using assms by (simp add: userDataCommands_def command_groups)
  have no_install: "''./install_deadline_client.sh'' \<notin> set (userDataCommands env props)"
    using assms by (simp add: userDataCommands_def command_groups)
  have calls: "userData (configureBastionUserData env props tier) =
          userData tier
          @ [AddS3DownloadCommand (instanceSetupScripts env),
             AddS3DownloadCommand (instanceUtilScripts env),
             AddS3DownloadCommand (testingScripts env props),
             AddCommands (userDataCommands env props),
             AddSignalOnExitCommand]"
    using assms by (simp add: configureBastionUserData_def downloaded_assets_def)
  from position once no_install calls show ?thesis by blast
qed

text \<open>The configuration that \<^verbatim>\<open>configureRepositoryTest\<close> passes.\<close>

theorem trust_bundle_position_witness:
  "\<not> installDeadlineClient
       \<lparr>installDeadlineClient = False, fetchDocdbCert = True,
        testingScriptPath = ''../components/deadline/deadline_01_repository/scripts/bastion/testing''\<rparr>
   \<and> fetchDocdbCert
       \<lparr>installDeadlineClient = False, fetchDocdbCert = True,
        testingScriptPath = ''../components/deadline/deadline_01_repository/scripts/bastion/testing''\<rparr>
   \<and> count_list
        (userDataCommands
           \<lparr>dirname = ''/integ/lib'', deadlineVersion = ''10.1.9.2'', stagePath = ''/stage'',
            s3LocalPath = (\<lambda>a. ''/tmp/'' @ asset_id a)\<rparr>
           \<lparr>installDeadlineClient = False, fetchDocdbCert = True,
            testingScriptPath = ''../components/deadline/deadline_01_repository/scripts/bastion/testing''\<rparr>)
        ''wget https://s3.amazonaws.com/rds-downloads/rds-combined-ca-bundle.pem'' = 1
   \<and> ''./install_deadline_client.sh'' \<notin> set
        (userDataCommands
           \<lparr>dirname = ''/integ/lib'', deadlineVersion = ''10.1.9.2'', stagePath = ''/stage'',
            s3LocalPath = (\<lambda>a. ''/tmp/'' @ asset_id a)\<rparr>
           \<lparr>installDeadlineClient = False, fetchDocdbCert = True,
            testingScriptPath = ''../components/deadline/deadline_01_repository/scripts/bastion/testing''\<rparr>)"
proof -
  let ?props = "\<lparr>installDeadlineClient = False, fetchDocdbCert = True,
        testingScriptPath = ''../components/deadline/deadline_01_repository/scripts/bastion/testing''\<rparr>"
  have h1: "\<not> installDeadlineClient ?props" by simp
  have h2: "fetchDocdbCert ?props" by simp
  from h1 h2 trust_bundle_position [OF h1 h2] show ?thesis by blast
qed

text \<open>
  Claim C3, as amended for the download of the installer. With the client
  installation, \<^verbatim>\<open>configureBastionUserData\<close> issues on the user data the downloads of
  the setup package, of the client installer, of the utility scripts and of the test
  scripts, then adds the command sequence, then the completion signal. The command
  sequence begins with the preamble, the generic setup block and then the commands
  of the client-install block. There the installer is run before the downloaded
  installer is removed: the run occurs once in the whole sequence and the removal does
  not occur before it. The paths in these commands are the ones the downloads return.
\<close>

theorem client_install_order:
  assumes "installDeadlineClient props"
  shows
    "userData (configureBastionUserData env props tier) =
       userData tier
       @ [AddS3DownloadCommand (instanceSetupScripts env),
          AddS3DownloadCommand (clientInstaller env),
          AddS3DownloadCommand (instanceUtilScripts env),
          AddS3DownloadCommand (testingScripts env props),
          AddCommands (userDataCommands env props),
          AddSignalOnExitCommand]
     \<and> (\<exists>post.
        userDataCommands env props =
          [''set -xeou pipefail'', ''TMPDIR=$(mktemp -d)'', ''cd '' @ dq ''${TMPDIR}'',
           ''unzip '' @ setupZipPath env, ''chmod +x *.sh'', ''./install_jq.sh'',
           ''cp '' @ installerPath env @ '' ./deadline-client-installer.run'',
           ''chmod +x *.run'',
           ''./install_deadline_client.sh'',
           ''rm -f '' @ installerPath env]
          @ post
        \<and> ''./install_deadline_client.sh'' \<notin> set post)
     \<and> ''rm -f '' @ installerPath env \<notin>
          set [''set -xeou pipefail'', ''TMPDIR=$(mktemp -d)'', ''cd '' @ dq ''${TMPDIR}'',
               ''unzip '' @ setupZipPath env, ''chmod +x *.sh'', ''./install_jq.sh'',
               ''cp '' @ installerPath env @ '' ./deadline-client-installer.run'',
               ''chmod +x *.run'',
               ''./install_deadline_client.sh'']
     \<and> count_list (userDataCommands env props) ''./install_deadline_client.sh'' = 1
     \<and> installerPath env = s3LocalPath env (clientInstaller env)
     \<and> setupZipPath env = s3LocalPath env (instanceSetupScripts env)"
proof -
  let ?post = "[''rm -f '' @ setupZipPath env] @ util_commands env @ tests_commands env props
               @ (if fetchDocdbCert props then docdb_cert_commands else []) @ final_commands"
  have calls: "userData (configureBastionUserData env props tier) =
       userData tier
       @ [AddS3DownloadCommand (instanceSetupScripts env),
          AddS3DownloadCommand (clientInstaller env),
          AddS3DownloadCommand (instanceUtilScripts env),
          AddS3DownloadCommand (testingScripts env props),
          AddCommands (userDataCommands env props),
          AddSignalOnExitCommand]"
    using assms by (simp add: configureBastionUserData_def downloaded_assets_def)
  have "userDataCommands env props =
          [''set -xeou pipefail'', ''TMPDIR=$(mktemp -d)'', ''cd '' @ dq ''${TMPDIR}'',
           ''unzip '' @ setupZipPath env, ''chmod +x *.sh'', ''./install_jq.sh'',
           ''cp '' @ installerPath env @ '' ./deadline-client-installer.run'',
           ''chmod +x *.run'',
           ''./install_deadline_client.sh'',
           ''rm -f '' @ installerPath env]
          @ ?post"
    using assms
    by (simp add: userDataCommands_def preamble_commands_def setup_commands_def
          client_install_commands_def)
  moreover have "''./install_deadline_client.sh'' \<notin> set ?post"
    by (simp add: command_groups)
  ultimately have order: "\<exists>post.
        userDataCommands env props =
          [''set -xeou pipefail'', ''TMPDIR=$(mktemp -d)'', ''cd '' @ dq ''${TMPDIR}'',
           ''unzip '' @ setupZipPath env, ''chmod +x *.sh'', ''./install_jq.sh'',
           ''cp '' @ installerPath env @ '' ./deadline-client-installer.run'',
           ''chmod +x *.run'',
           ''./install_deadline_client.sh'',
           ''rm -f '' @ installerPath env]
          @ post
        \<and> ''./install_deadline_client.sh'' \<notin> set post"
    by blast
  have not_before: "''rm -f '' @ installerPath env \<notin>
          set [''set -xeou pipefail'', ''TMPDIR=$(mktemp -d)'', ''cd '' @ dq ''${TMPDIR}'',
               ''unzip '' @ setupZipPath env, ''chmod +x *.sh'', ''./install_jq.sh'',
               ''cp '' @ installerPath env @ '' ./deadline-client-installer.run'',
               ''chmod +x *.run'',
               ''./install_deadline_client.sh'']"
    by simp
  have once: "count_list (userDataCommands env props) ''./install_deadline_client.sh'' = 1"
    using assms by (simp add: userDataCommands_def command_groups)
  have paths: "installerPath env = s3LocalPath env (clientInstaller env)"
    "setupZipPath env = s3LocalPath env (instanceSetupScripts env)"
    by (simp_all add: installerPath_def setupZipPath_def)
  from calls order not_before once paths show ?thesis by blast
qed

text \<open>
  The configuration that \<^verbatim>\<open>configureWorkerFleetTest\<close> passes: the first two calls on
  the user data and the first ten commands.
\<close>

theorem client_install_order_witness:
  "installDeadlineClient
       \<lparr>installDeadlineClient = True, fetchDocdbCert = False,
        testingScriptPath = ''../components/deadline/deadline_03_workerFleet/scripts/bastion/testing''\<rparr>
   \<and> take 2 (userData (configureBastionUserData
           \<lparr>dirname = ''/integ/lib'', deadlineVersion = ''10.1.9.2'', stagePath = ''/stage'',
            s3LocalPath = (\<lambda>a. ''/tmp/'' @ asset_id a)\<rparr>
           \<lparr>installDeadlineClient = True, fetchDocdbCert = False,
            testingScriptPath = ''../components/deadline/deadline_03_workerFleet/scripts/bastion/testing''\<rparr>
           \<lparr>cfnOutputs = [], readGrants = [], connections = [],
            creationPolicy = \<lparr>autoScalingCreationPolicy = None, resourceSignal = None\<rparr>,
            userData = []\<rparr>))
       = [AddS3DownloadCommand
            \<lparr>asset_id = ''SetupScripts'',
             asset_path = [''/integ/lib'', ''..'', ''components'', ''deadline'', ''common'',
                           ''scripts'', ''bastion'', ''setup'']\<rparr>,
          AddS3DownloadCommand
            \<lparr>asset_id = ''ClientInstaller'',
             asset_path = [''/stage'', ''bin'', ''DeadlineClient-10.1.9.2-linux-x64-installer.run'']\<rparr>]
   \<and> take 10 (userDataCommands
           \<lparr>dirname = ''/integ/lib'', deadlineVersion = ''10.1.9.2'', stagePath = ''/stage'',
            s3LocalPath = (\<lambda>a. ''/tmp/'' @ asset_id a)\<rparr>
           \<lparr>installDeadlineClient = True, fetchDocdbCert = False,
            testingScriptPath = ''../components/deadline/deadline_03_workerFleet/scripts/bastion/testing''\<rparr>)
       = [''set -xeou pipefail'', ''TMPDIR=$(mktemp -d)'', ''cd '' @ [CHR 0x22] @ ''${TMPDIR}'' @ [CHR 0x22],
          ''unzip /tmp/SetupScripts'', ''chmod +x *.sh'', ''./install_jq.sh'',
          ''cp /tmp/ClientInstaller ./deadline-client-installer.run'',
          ''chmod +x *.run'',
          ''./install_deadline_client.sh'',
          ''rm -f /tmp/ClientInstaller'']
   \<and> count_list
        (userDataCommands
           \<lparr>dirname = ''/integ/lib'', deadlineVersion = ''10.1.9.2'', stagePath = ''/stage'',
            s3LocalPath = (\<lambda>a. ''/tmp/'' @ asset_id a)\<rparr>
           \<lparr>installDeadlineClient = True, fetchDocdbCert = False,
            testingScriptPath = ''../components/deadline/deadline_03_workerFleet/scripts/bastion/testing''\<rparr>)
        ''./install_deadline_client.sh'' = 1"
proof -
  let ?props = "\<lparr>installDeadlineClient = True, fetchDocdbCert = False,
        testingScriptPath = ''../components/deadline/deadline_03_workerFleet/scripts/bastion/testing''\<rparr>"
  let ?env = "\<lparr>dirname = ''/integ/lib'', deadlineVersion = ''10.1.9.2'', stagePath = ''/stage'',
            s3LocalPath = (\<lambda>a. ''/tmp/'' @ asset_id a)\<rparr>"
  let ?tier = "\<lparr>cfnOutputs = [], readGrants = [], connections = [],
            creationPolicy = \<lparr>autoScalingCreationPolicy = None, resourceSignal = None\<rparr>,
            userData = []\<rparr>"
  have h: "installDeadlineClient ?props" by simp
  note t = client_install_order [OF h, where env = ?env and tier = ?tier]
  from t have calls: "userData (configureBastionUserData ?env ?props ?tier) =
       userData ?tier
       @ [AddS3DownloadCommand (instanceSetupScripts ?env),
          AddS3DownloadCommand (clientInstaller ?env),
          AddS3DownloadCommand (instanceUtilScripts ?env),
          AddS3DownloadCommand (testingScripts ?env ?props),
          AddCommands (userDataCommands ?env ?props),
          AddSignalOnExitCommand]"
    by blast
  from t obtain post where post: "userDataCommands ?env ?props =
          [''set -xeou pipefail'', ''TMPDIR=$(mktemp -d)'', ''cd '' @ dq ''${TMPDIR}'',
           ''unzip '' @ setupZipPath ?env, ''chmod +x *.sh'', ''./install_jq.sh'',
           ''cp '' @ installerPath ?env @ '' ./deadline-client-installer.run'',
           ''chmod +x *.run'',
           ''./install_deadline_client.sh'',
           ''rm -f '' @ installerPath ?env]
          @ post"
    by blast
  from t have once: "count_list (userDataCommands ?env ?props) ''./install_deadline_client.sh'' = 1"
    by blast
  from t have paths: "installerPath ?env = s3LocalPath ?env (clientInstaller ?env)"
    "setupZipPath ?env = s3LocalPath ?env (instanceSetupScripts ?env)"
    by blast+
  have c2: "take 2 (userData (configureBastionUserData ?env ?props ?tier)) =
        [AddS3DownloadCommand
            \<lparr>asset_id = ''SetupScripts'',
             asset_path = [''/integ/lib'', ''..'', ''components'', ''deadline'', ''common'',
                           ''scripts'', ''bastion'', ''setup'']\<rparr>,
          AddS3DownloadCommand
            \<lparr>asset_id = ''ClientInstaller'',
             asset_path = [''/stage'', ''bin'', ''DeadlineClient-10.1.9.2-linux-x64-installer.run'']\<rparr>]"
    unfolding calls by (simp add: instanceSetupScripts_def clientInstaller_def)
  have c10: "take 10 (userDataCommands ?env ?props) =
         [''set -xeou pipefail'', ''TMPDIR=$(mktemp -d)'', ''cd '' @ [CHR 0x22] @ ''${TMPDIR}'' @ [CHR 0x22],
          ''unzip /tmp/SetupScripts'', ''chmod +x *.sh'', ''./install_jq.sh'',
          ''cp /tmp/ClientInstaller ./deadline-client-installer.run'',
          ''chmod +x *.run'',
          ''./install_deadline_client.sh'',
          ''rm -f /tmp/ClientInstaller'']"
    unfolding post paths by (simp add: instanceSetupScripts_def clientInstaller_def dq_def)
  from h c2 c10 once show ?thesis by blast
qed

text \<open>
  Claim C3 as it is stated, for the whole client-install block: the download of the
  client installer is the second call on the user data, while the commands of the
  generic setup block are in the command sequence, which is added by the fifth call.
  So the download does not come after the setup block.
\<close>

theorem client_installer_download_counterexample:
  "userData (configureBastionUserData
       \<lparr>dirname = ''/integ/lib'', deadlineVersion = ''10.1.9.2'', stagePath = ''/stage'',
        s3LocalPath = (\<lambda>a. ''/tmp/'' @ asset_id a)\<rparr>
       \<lparr>installDeadlineClient = True, fetchDocdbCert = False,
        testingScriptPath = ''testing''\<rparr>
       \<lparr>cfnOutputs = [], readGrants = [], connections = [],
        creationPolicy = \<lparr>autoScalingCreationPolicy = None, resourceSignal = None\<rparr>,
        userData = []\<rparr>)
   = [AddS3DownloadCommand
        \<lparr>asset_id = ''SetupScripts'',
         asset_path = [''/integ/lib'', ''..'', ''components'', ''deadline'', ''common'',
                       ''scripts'', ''bastion'', ''setup'']\<rparr>,
      AddS3DownloadCommand
        \<lparr>asset_id = ''ClientInstaller'',
         asset_path = [''/stage'', ''bin'', ''DeadlineClient-10.1.9.2-linux-x64-installer.run'']\<rparr>,
      AddS3DownloadCommand
        \<lparr>asset_id = ''UtilScripts'',
         asset_path = [''/integ/lib'', ''..'', ''components'', ''deadline'', ''common'',
                       ''scripts'', ''bastion'', ''utils'']\<rparr>,
      AddS3DownloadCommand
        \<lparr>asset_id = ''TestingScripts'', asset_path = [''/integ/lib'', ''testing'']\<rparr>,
      AddCommands
        [''set -xeou pipefail'', ''TMPDIR=$(mktemp -d)'',
         ''cd '' @ [CHR 0x22] @ ''${TMPDIR}'' @ [CHR 0x22],
         ''unzip /tmp/SetupScripts'', ''chmod +x *.sh'', ''./install_jq.sh'',
         ''cp /tmp/ClientInstaller ./deadline-client-installer.run'',
         ''chmod +x *.run'', ''./install_deadline_client.sh'', ''rm -f /tmp/ClientInstaller'',
         ''rm -f /tmp/SetupScripts'',
         ''cd ~ec2-user'', ''mkdir -p utilScripts'', ''cd utilScripts'',
         ''unzip /tmp/UtilScripts'', ''chmod +x *.sh'', ''rm -f /tmp/UtilScripts'',
         ''cd ~ec2-user'', ''mkdir -p testScripts'', ''cd testScripts'',
         ''unzip /tmp/TestingScripts'', ''chmod +x *.sh'', ''rm -f /tmp/TestingScripts'',
         ''cd ~ec2-user'', ''chown ec2-user.ec2-user -R *'',
         ''rm -rf '' @ [CHR 0x22] @ ''${TMPDIR}'' @ [CHR 0x22]],
      AddSignalOnExitCommand]"
  by (simp add: configureBastionUserData_def downloaded_assets_def userDataCommands_def
        command_groups instanceSetupScripts_def clientInstaller_def instanceUtilScripts_def
        testingScripts_def setupZipPath_def installerPath_def utilZipPath_def testsZipPath_def
        dq_def)

text \<open>
  Claim C7. For every boot configuration the command sequence ends with the recursive
  ownership fix-up of the home directory of \<^verbatim>\<open>ec2-user\<close> and the removal of the scratch
  directory, the last call on the user data, after the commands are added, is the one
  that adds the completion signal, and the creation policy waits for one signal with
  a timeout of five minutes.
\<close>

theorem boot_script_ending:
  "(\<exists>pre. userDataCommands env props =
       pre @ [''cd ~ec2-user'', ''chown ec2-user.ec2-user -R *'', ''rm -rf '' @ dq ''${TMPDIR}''])
   \<and> (\<exists>calls. userData (configureBastionUserData env props tier) =
       calls @ [AddCommands (userDataCommands env props), AddSignalOnExitCommand])
   \<and> resourceSignal (creationPolicy (configureBastionUserData env props tier)) =
       Some \<lparr>timeout = Minutes 5, count = 1\<rparr>"
proof -
  have "userDataCommands env props =
      (preamble_commands @ setup_commands env
       @ (if installDeadlineClient props then client_install_commands env else [])
       @ [''rm -f '' @ setupZipPath env] @ util_commands env @ tests_commands env props
       @ (if fetchDocdbCert props then docdb_cert_commands else []))
      @ [''cd ~ec2-user'', ''chown ec2-user.ec2-user -R *'', ''rm -rf '' @ dq ''${TMPDIR}'']"
    by (simp add: userDataCommands_def final_commands_def)
  then have ending: "\<exists>pre. userDataCommands env props =
       pre @ [''cd ~ec2-user'', ''chown ec2-user.ec2-user -R *'', ''rm -rf '' @ dq ''${TMPDIR}'']"
    by blast
  have "userData (configureBastionUserData env props tier) =
      (userData tier @ map AddS3DownloadCommand (downloaded_assets env props))
      @ [AddCommands (userDataCommands env props), AddSignalOnExitCommand]"
    by (simp add: configureBastionUserData_def)
  then have signal: "\<exists>calls. userData (configureBastionUserData env props tier) =
       calls @ [AddCommands (userDataCommands env props), AddSignalOnExitCommand]"
    by blast
  have policy: "resourceSignal (creationPolicy (configureBastionUserData env props tier)) =
       Some \<lparr>timeout = Minutes 5, count = 1\<rparr>"
    by (simp add: configureBastionUserData_def)
  from ending signal policy show ?thesis by blast
qed

lemma toString_length: "length (toString n) = Suc 0 \<longleftrightarrow> n < 10"
proof (induction n rule: toString.induct)
  case (1 n)
  show ?case
  proof (cases "n < 10")
    case True
    then show ?thesis by (simp add: toString.simps)
  next
    case False
    have "toString (n div 10) \<noteq> []"
      by (subst toString.simps) simp
    with False show ?thesis
      by (subst toString.simps) simp
  qed
qed

lemma toString_inj: "toString n = toString m \<Longrightarrow> n = m"
proof (induction n arbitrary: m rule: toString.induct)
  case (1 n)
  show ?case
  proof (cases "n < 10")
    case True
    then have "length (toString n) = 1" by (simp add: toString_digit)
    with "1.prems" have m: "m < 10" by (simp add: toString_length)
    from True m "1.prems" have "digitChar n = digitChar m"
      by (simp add: toString.simps)
    with True m show ?thesis by (rule digitChar_inj)
  next
    case False
    then have "length (toString n) \<noteq> 1" by (simp add: toString_length)
    with "1.prems" have m: "\<not> m < 10" by (simp add: toString_length)
    have n': "toString n = toString (n div 10) @ [digitChar (n mod 10)]"
      using False by (subst toString.simps) simp
    have m': "toString m = toString (m div 10) @ [digitChar (m mod 10)]"
      using m by (subst toString.simps) simp
    from "1.prems" n' m' have a: "toString (n div 10) = toString (m div 10)"
      and b: "digitChar (n mod 10) = digitChar (m mod 10)" by simp_all
    from "1.IH" [OF False a] have "n div 10 = m div 10" .
    moreover from b have "n mod 10 = m mod 10"
      by (intro digitChar_inj) simp_all
    ultimately show ?thesis by (metis div_mult_mod_eq)
  qed
qed

lemma indexOf_ge: "- 1 \<le> indexOf xs x"
  by (induction xs) (auto simp: Let_def)

lemma indexOf_member:
  "x \<in> set xs \<Longrightarrow> 0 \<le> indexOf xs x \<and> nat (indexOf xs x) < length xs \<and> xs ! nat (indexOf xs x) = x"
proof (induction xs)
  case Nil
  then show ?case by simp
next
  case (Cons y ys)
  show ?case
  proof (cases "y = x")
    case True
    then show ?thesis by simp
  next
    case False
    with Cons.prems have "x \<in> set ys" by simp
    from Cons.IH [OF this] False show ?thesis
      by (auto simp: Let_def nat_add_distrib)
  qed
qed

lemma indexOf_inj:
  assumes "x \<in> set xs" "y \<in> set xs" "indexOf xs x = indexOf xs y"
  shows "x = y"
  using indexOf_member [OF assms(1)] indexOf_member [OF assms(2)] assms(3) by metis

lemma suite_number_inj:
  assumes "x \<in> set xs" "y \<in> set xs"
    and "toString (nat (indexOf xs x + 1)) = toString (nat (indexOf xs y + 1))"
  shows "x = y"
proof -
  from assms(3) have "nat (indexOf xs x + 1) = nat (indexOf xs y + 1)" by (rule toString_inj)
  with indexOf_ge [of xs x] indexOf_ge [of xs y] have "indexOf xs x = indexOf xs y" by simp
  with assms(1,2) show ?thesis by (rule indexOf_inj)
qed

lemma configureCert_None: "configureCert testSuiteId None tier = tier"
  by (simp add: configureCert_def)

lemma workerFleet_suite_outputs:
  "cfnOutputs (workerFleet_suite structs tier ws) =
     cfnOutputs tier
     @ [(''renderQueueEndpoint'' @ ''WF'' @ toString (nat (indexOf structs ws + 1)),
         js_string (renderQueue_address (ws_renderQueue ws)) @ '':''
           @ portAsString (ws_renderQueue ws))]
     @ (case ws_cert ws of
          None \<Rightarrow> []
        | Some c \<Rightarrow>
            [(''certSecretARN'' @ ''WF'' @ toString (nat (indexOf structs ws + 1)), secretArn c)])"
  by (simp add: workerFleet_suite_def configureWorkerFleet_def configureCert_def
        configureRenderQueue_def Let_def split: option.split)

lemma workerFleet_suites_cert_key:
  assumes "(''certSecretARN'' @ sid) \<in> fst ` set (cfnOutputs (foldl (workerFleet_suite structs) tier ss))"
  shows "(''certSecretARN'' @ sid) \<in> fst ` set (cfnOutputs tier)
       \<or> (\<exists>ws \<in> set ss. ws_cert ws \<noteq> None
             \<and> sid = ''WF'' @ toString (nat (indexOf structs ws + 1)))"
  using assms
proof (induction ss rule: rev_induct)
  case Nil
  then show ?case by simp
next
  case (snoc s ss)
  from snoc.prems
  have "(''certSecretARN'' @ sid) \<in> fst ` set (cfnOutputs (foldl (workerFleet_suite structs) tier ss))
        \<or> (ws_cert s \<noteq> None \<and> sid = ''WF'' @ toString (nat (indexOf structs s + 1)))"
    by (auto simp: workerFleet_suite_outputs split: option.splits)
  with snoc.IH show ?case by auto
qed

text \<open>
  Claim C10. Without a certificate \<^verbatim>\<open>configureCert\<close> changes nothing: no grant, no
  output. Hence a worker-fleet suite that has no certificate gets no
  \<^verbatim>\<open>certSecretARN\<close> output under its suite id from \<^verbatim>\<open>configureWorkerFleetTest\<close>, whatever
  the other suites are.
\<close>

theorem no_cert_no_output:
  "configureCert testSuiteId None tier = tier
   \<and> (ws \<in> set structs \<and> ws_cert ws = None
       \<and> (''certSecretARN'' @ ''WF'' @ toString (nat (indexOf structs ws + 1)))
            \<notin> fst ` set (cfnOutputs tier)
       \<longrightarrow> (''certSecretARN'' @ ''WF'' @ toString (nat (indexOf structs ws + 1)))
            \<notin> fst ` set (cfnOutputs (configureWorkerFleetTest env structs tier)))"
proof (intro conjI impI)
  show "configureCert testSuiteId None tier = tier" by (rule configureCert_None)
next
  let ?sid = "''WF'' @ toString (nat (indexOf structs ws + 1))"
  assume a: "ws \<in> set structs \<and> ws_cert ws = None
       \<and> (''certSecretARN'' @ ?sid) \<notin> fst ` set (cfnOutputs tier)"
  show "(''certSecretARN'' @ ?sid) \<notin> fst ` set (cfnOutputs (configureWorkerFleetTest env structs tier))"
  proof
    assume "(''certSecretARN'' @ ?sid) \<in> fst ` set (cfnOutputs (configureWorkerFleetTest env structs tier))"
    then have "(''certSecretARN'' @ ?sid) \<in> fst ` set (cfnOutputs (foldl (workerFleet_suite structs) tier structs))"
      by (simp add: configureWorkerFleetTest_def configureBastionUserData_def)
    from workerFleet_suites_cert_key [OF this] a
    obtain ws' where ws': "ws' \<in> set structs" "ws_cert ws' \<noteq> None"
      "?sid = ''WF'' @ toString (nat (indexOf structs ws' + 1))"
      by blast
    from ws'(3) have "toString (nat (indexOf structs ws + 1)) = toString (nat (indexOf structs ws' + 1))"
      by simp
    with a ws'(1) have "ws = ws'" by (intro suite_number_inj [of ws structs ws']) simp_all
    with a ws'(2) show False by simp
  qed
qed

text \<open>Two suites, the second without a certificate.\<close>

theorem no_cert_no_output_witness:
  "\<lparr>ws_ref = 2, ws_renderQueue = \<lparr>rq_node = ''RQ2'', portAsString = ''4433'', hostname = ''rq2.example'',
                       stackName = ''Farm''\<rparr>,
     ws_cert = None, ws_workerFleet = [''Fleet2'']\<rparr>
     \<in> set [\<lparr>ws_ref = 1, ws_renderQueue = \<lparr>rq_node = ''RQ1'', portAsString = ''4433'',
                                  hostname = ''rq1.example'', stackName = ''Farm''\<rparr>,
               ws_cert = Some \<lparr>secretArn = ''arn:secret:1''\<rparr>, ws_workerFleet = [''Fleet1'']\<rparr>,
              \<lparr>ws_ref = 2, ws_renderQueue = \<lparr>rq_node = ''RQ2'', portAsString = ''4433'',
                                  hostname = ''rq2.example'', stackName = ''Farm''\<rparr>,
               ws_cert = None, ws_workerFleet = [''Fleet2'']\<rparr>]
   \<and> ''certSecretARNWF2'' \<notin> fst ` set (cfnOutputs
        (configureWorkerFleetTest
           \<lparr>dirname = ''/integ/lib'', deadlineVersion = ''10.1.9.2'', stagePath = ''/stage'',
            s3LocalPath = (\<lambda>a. ''/tmp/'' @ asset_id a)\<rparr>
           [\<lparr>ws_ref = 1, ws_renderQueue = \<lparr>rq_node = ''RQ1'', portAsString = ''4433'',
                                hostname = ''rq1.example'', stackName = ''Farm''\<rparr>,
             ws_cert = Some \<lparr>secretArn = ''arn:secret:1''\<rparr>, ws_workerFleet = [''Fleet1'']\<rparr>,
            \<lparr>ws_ref = 2, ws_renderQueue = \<lparr>rq_node = ''RQ2'', portAsString = ''4433'',
                                hostname = ''rq2.example'', stackName = ''Farm''\<rparr>,
             ws_cert = None, ws_workerFleet = [''Fleet2'']\<rparr>]
           \<lparr>cfnOutputs = [(''bastionId'', ''i-1'')], readGrants = [], connections = [],
            creationPolicy = \<lparr>autoScalingCreationPolicy = None, resourceSignal = None\<rparr>,
            userData = []\<rparr>))"
proof -
  let ?w1 = "\<lparr>ws_ref = 1, ws_renderQueue = \<lparr>rq_node = ''RQ1'', portAsString = ''4433'',
                                  hostname = ''rq1.example'', stackName = ''Farm''\<rparr>,
               ws_cert = Some \<lparr>secretArn = ''arn:secret:1''\<rparr>, ws_workerFleet = [''Fleet1'']\<rparr>"
  let ?w2 = "\<lparr>ws_ref = 2, ws_renderQueue = \<lparr>rq_node = ''RQ2'', portAsString = ''4433'', hostname = ''rq2.example'',
                       stackName = ''Farm''\<rparr>,
     ws_cert = None, ws_workerFleet = [''Fleet2'']\<rparr>"
  let ?tier = "\<lparr>cfnOutputs = [(''bastionId'', ''i-1'')], readGrants = [], connections = [],
            creationPolicy = \<lparr>autoScalingCreationPolicy = None, resourceSignal = None\<rparr>,
            userData = []\<rparr>"
  have k: "''certSecretARN'' @ ''WF'' @ toString (nat (indexOf [?w1, ?w2] ?w2 + 1)) = ''certSecretARNWF2''"
    by (simp add: toString.simps digitChar_def)
  have h1: "?w2 \<in> set [?w1, ?w2]" by simp
  have h2: "ws_cert ?w2 = None" by simp
  have h3: "''certSecretARNWF2'' \<notin> fst ` set (cfnOutputs ?tier)" by simp
  from no_cert_no_output [where ws = ?w2 and structs = "[?w1, ?w2]" and tier = ?tier] h1 h2 h3
  show ?thesis unfolding k by blast
qed

section \<open>Properties of the Suite Driver\<close>

lemma awaitSsmCommand_fst: "fst (awaitSsmCommand sub d p) = d @ [p]"
  by (simp add: awaitSsmCommand_def)

lemma run_test_step:
  "run_test sub tn i (d, rs) t =
     (d @ [test_params t],
      rs @ [assertion tn i t (command_result sub (length d) (test_params t))])"
  by (simp add: run_test_def awaitSsmCommand_def)

lemma running_both:
  "foldl (run_test sub tn i) (d, rs) ts =
     (d @ map test_params ts,
      rs @ map (\<lambda>k. assertion tn i (ts ! k)
                  (command_result sub (length d + k) (test_params (ts ! k))))
             [0..<length ts])"
proof (induction ts rule: rev_induct)
  case Nil
  show ?case by simp
next
  case (snoc t ts)
  have "foldl (run_test sub tn i) (d, rs) (ts @ [t]) =
      run_test sub tn i (foldl (run_test sub tn i) (d, rs) ts) t"
    by simp
  also have "\<dots> =
      ((d @ map test_params ts) @ [test_params t],
       (rs @ map (\<lambda>k. assertion tn i (ts ! k)
                  (command_result sub (length d + k) (test_params (ts ! k))))
             [0..<length ts])
       @ [assertion tn i t
            (command_result sub (length (d @ map test_params ts)) (test_params t))])"
    unfolding snoc.IH by (rule run_test_step)
  also have "\<dots> =
      (d @ map test_params (ts @ [t]),
       rs @ map (\<lambda>k. assertion tn i ((ts @ [t]) ! k)
                  (command_result sub (length d + k) (test_params ((ts @ [t]) ! k))))
             [0..<length (ts @ [t])])"
    by (simp add: nth_append cong: map_cong)
  finally show ?case .
qed

lemma worker_tests_length: "length (worker_tests st i) = 4"
  by (simp add: worker_tests_def setConfigs_def)

lemma setting_up_cases:
  "setting_up sub env st i d0 =
     (case suite_beforeAll env st i of
        Inl e \<Rightarrow> (d0, False)
      | Inr fetch \<Rightarrow>
          (case command_result sub (length d0) fetch of
             Inl f \<Rightarrow> (d0 @ [fetch], False)
           | Inr out \<Rightarrow>
               (d0 @ [fetch, worker_beforeAll st i],
                case command_result sub (length d0 + 1) (worker_beforeAll st i) of
                  Inl f \<Rightarrow> False | Inr out' \<Rightarrow> True)))"
  by (auto simp add: setting_up_def awaitSsmCommand_def split: sum.split)

lemma command_result_Success:
  "(\<exists>out. command_result sub n p = Inr out) \<longleftrightarrow> state (sub n p) = Success"
  by (cases "state (sub n p)") (simp_all add: command_result_def)

lemma run_suite_dispatched:
  "dispatched (run_suite sub tn env st i d0) =
     fst (setting_up sub env st i d0)
     @ (if snd (setting_up sub env st i d0) then map test_params (worker_tests st i) else [])
     @ [suite_afterAll st]"
  by (cases "setting_up sub env st i d0")
     (simp add: run_suite_def running_both awaitSsmCommand_def)

lemma run_suite_results:
  "results (run_suite sub tn env st i d0) =
     (if snd (setting_up sub env st i d0)
      then map (\<lambda>k. assertion tn i (worker_tests st i ! k)
                  (command_result sub (length (fst (setting_up sub env st i d0)) + k)
                     (test_params (worker_tests st i ! k))))
             [0..<length (worker_tests st i)]
      else [])"
  by (cases "setting_up sub env st i d0")
     (simp add: run_suite_def running_both awaitSsmCommand_def)

lemma run_suite_setup_completed:
  "setup_completed (run_suite sub tn env st i d0) = snd (setting_up sub env st i d0)"
  by (cases "setting_up sub env st i d0")
     (simp add: run_suite_def split: prod.split)


lemma scenario_discovered:
  "discover [(''bastionId'', ''i-1''), (''renderQueueEndpointWFS1'', ''rq1.local:4433''),
             (''CertSecretARNWFS1'', ''arn:secret:1'')]
   = \<lparr>bastionId = Some ''i-1'', renderQueueEndpoints = [None, Some ''rq1.local:4433''],
      secretARNs = [None, Some ''arn:secret:1'']\<rparr>"
proof -
  have c2: "classify ''renderQueueEndpointWFS1'' = EndpointKey (CHR ''1'')"
    by (simp add: classify_def bastionRegex_test_def rqRegex_exec_def literal_digit_here_def
          isDigit_def)
  have c3: "classify ''CertSecretARNWFS1'' = SecretKey (CHR ''1'')"
    by (simp add: classify_def bastionRegex_test_def rqRegex_exec_def certRegex_exec_def
          literal_digit_here_def isDigit_def)
  show ?thesis
    by (simp add: discover_def discover_from_def initial_def process_output_def
          classify_bastionId c2 c3 digitValue_def js_set_def)
qed

lemma setting_up_completed_length:
  assumes "snd (setting_up sub env st i d0)"
  shows "length (fst (setting_up sub env st i d0)) = length d0 + 2"
  using assms by (auto simp: setting_up_cases split: sum.splits)

lemma worker_tests_distinct:
  "distinct (map test_params (worker_tests st i))"
  "distinct (map test_name (worker_tests st i))"
  by (simp_all add: worker_tests_def setConfigs_def set_test_def shell_params_def)

lemma worker_tests_host:
  "map (\<lambda>t. InstanceIds (test_params t)) (worker_tests st i) = replicate 4 [bastionId st]"
  by (simp add: worker_tests_def setConfigs_def set_test_def shell_params_def
        numeral_eq_Suc)

lemma set_tests_arguments:
  "commands (test_params (worker_tests st i ! 2)) \<noteq> commands (test_params (worker_tests st i ! 3))"
  by (simp add: worker_tests_def setConfigs_def set_test_def shell_params_def dq_def)

text \<open>
  Claim C1. Take a suite for which a secret reference and an endpoint were discovered.
  The three commands of the hooks are written out: each goes to the discovered
  bastion, the fetch of the certificate runs \<^verbatim>\<open>fetch-cert.sh\<close> with the region and the
  suite's secret ARN, the configuration of the client runs \<^verbatim>\<open>configure-deadline.sh\<close>
  with the suite's endpoint, and the cleanup runs \<^verbatim>\<open>cleanup-cert.sh\<close>. If both setup
  commands succeed, the commands dispatched are, in this order, the fetch, the
  configuration, the commands of the four tests (written out as well) and the
  cleanup. If a setup command fails, the cleanup is still dispatched, right after the
  setup commands dispatched so far, and no test command is: none of the three
  commands is a test command, and no result is recorded.
\<close>

theorem suite_dispatch_order:
  fixes fetch configure cleanup :: ssm_params and env :: test_env
  assumes secret: "js_get (secretARNs st) i = Some arn" "arn \<noteq> []"
      and endpoint: "js_get (renderQueueEndpoints st) i = Some ep"
  defines "fetch \<equiv>
      \<lparr>DocumentName = ''AWS-RunShellScript'',
       Comment = ''Execute Test Script fetch-cert.sh'',
       InstanceIds = [bastionId st],
       commands = [''sudo -i'', ''su - ec2-user >/dev/null'', ''cd ~ec2-user'',
                   ''./utilScripts/fetch-cert.sh '' @ [CHR 0x27] @ js_string (region env)
                     @ [CHR 0x27] @ '' '' @ [CHR 0x27] @ arn @ [CHR 0x27]]\<rparr>"
      and "configure \<equiv>
      \<lparr>DocumentName = ''AWS-RunShellScript'',
       Comment = ''Execute Test Script configure-deadline.sh'',
       InstanceIds = [bastionId st],
       commands = [''sudo -i'', ''su - ec2-user >/dev/null'', ''cd ~ec2-user'',
                   ''./utilScripts/configure-deadline.sh '' @ [CHR 0x27] @ ep @ [CHR 0x27]]\<rparr>"
      and "cleanup \<equiv>
      \<lparr>DocumentName = ''AWS-RunShellScript'',
       Comment = ''Execute Test Script cleanup-cert.sh'',
       InstanceIds = [bastionId st],
       commands = [''sudo -i'', ''su - ec2-user >/dev/null'', ''cd ~ec2-user'',
                   ''./utilScripts/cleanup-cert.sh'']\<rparr>"
  shows
    "(state (sub (length d0) fetch) = Success \<and> state (sub (length d0 + 1) configure) = Success
        \<longrightarrow> dispatched (run_suite sub tn env st i d0) =
              d0 @ [fetch, configure] @ map test_params (worker_tests st i) @ [cleanup])
     \<and> worker_tests st i \<noteq> []
     \<and> (state (sub (length d0) fetch) \<noteq> Success
        \<longrightarrow> dispatched (run_suite sub tn env st i d0) = d0 @ [fetch, cleanup]
            \<and> results (run_suite sub tn env st i d0) = [])
     \<and> (state (sub (length d0) fetch) = Success \<and> state (sub (length d0 + 1) configure) \<noteq> Success
        \<longrightarrow> dispatched (run_suite sub tn env st i d0) = d0 @ [fetch, configure, cleanup]
            \<and> results (run_suite sub tn env st i d0) = [])
     \<and> fetch \<notin> set (map test_params (worker_tests st i))
     \<and> configure \<notin> set (map test_params (worker_tests st i))
     \<and> cleanup \<notin> set (map test_params (worker_tests st i))
     \<and> map test_params (worker_tests st i) =
         [
          \<lparr>DocumentName = ''AWS-RunShellScript'',
           Comment = ''Execute Test Script WFS-report-workers.sh'',
           InstanceIds = [bastionId st],
           commands = [''sudo -i'', ''su - ec2-user >/dev/null'', ''cd ~ec2-user'',
                       ''./testScripts/WFS-report-workers.sh'']\<rparr>,
          \<lparr>DocumentName = ''AWS-RunShellScript'',
           Comment = ''Execute Test Script WFS-report-worker-sets.sh'',
           InstanceIds = [bastionId st],
           commands = [''sudo -i'', ''su - ec2-user >/dev/null'', ''cd ~ec2-user'',
                       ''./testScripts/WFS-report-worker-sets.sh'']\<rparr>,
          \<lparr>DocumentName = ''AWS-RunShellScript'',
           Comment = ''Execute Test Script WFS-submit-jobs-to-sets.sh for group'',
           InstanceIds = [bastionId st],
           commands = [''sudo -i'', ''su - ec2-user >/dev/null'', ''cd ~ec2-user'',
                       ''./testScripts/WFS-submit-jobs-to-sets.sh '' @ [CHR 0x22] @ ''group'' @ [CHR 0x22]
                        @ '' '' @ [CHR 0x22] @ ''-group testgroup'' @ [CHR 0x22]]\<rparr>,
          \<lparr>DocumentName = ''AWS-RunShellScript'',
           Comment = ''Execute Test Script WFS-submit-jobs-to-sets.sh for pool'',
           InstanceIds = [bastionId st],
           commands = [''sudo -i'', ''su - ec2-user >/dev/null'', ''cd ~ec2-user'',
                       ''./testScripts/WFS-submit-jobs-to-sets.sh '' @ [CHR 0x22] @ ''pool'' @ [CHR 0x22]
                        @ '' '' @ [CHR 0x22] @ ''-pool testpool'' @ [CHR 0x22]]\<rparr>]"
proof -
  have hook: "suite_beforeAll env st i = Inr fetch"
    using secret
    by (simp add: fetch_def suite_beforeAll_def js_truthy_def js_string_def shell_params_def
          quoted_def)
  have conf: "worker_beforeAll st i = configure"
    using endpoint
    by (simp add: configure_def worker_beforeAll_def js_string_def shell_params_def quoted_def)
  have clean: "suite_afterAll st = cleanup"
    by (simp add: cleanup_def suite_afterAll_def shell_params_def)
  have stp: "setting_up sub env st i d0 =
      (case command_result sub (length d0) fetch of
         Inl f \<Rightarrow> (d0 @ [fetch], False)
       | Inr out \<Rightarrow>
           (d0 @ [fetch, configure],
            case command_result sub (length d0 + 1) configure of
              Inl f \<Rightarrow> False | Inr out' \<Rightarrow> True))"
    by (simp add: setting_up_cases hook conf split: sum.split)
  have ok: "dispatched (run_suite sub tn env st i d0) =
              d0 @ [fetch, configure] @ map test_params (worker_tests st i) @ [cleanup]"
    if "state (sub (length d0) fetch) = Success" "state (sub (length d0 + 1) configure) = Success"
    using that by (simp add: run_suite_dispatched stp clean command_result_def)
  have fail1: "dispatched (run_suite sub tn env st i d0) = d0 @ [fetch, cleanup]
            \<and> results (run_suite sub tn env st i d0) = []"
    if "state (sub (length d0) fetch) \<noteq> Success"
    using that
    by (cases "state (sub (length d0) fetch)")
       (simp_all add: run_suite_dispatched run_suite_results stp clean command_result_def)
  have fail2: "dispatched (run_suite sub tn env st i d0) = d0 @ [fetch, configure, cleanup]
            \<and> results (run_suite sub tn env st i d0) = []"
    if "state (sub (length d0) fetch) = Success" "state (sub (length d0 + 1) configure) \<noteq> Success"
    using that
    by (cases "state (sub (length d0 + 1) configure)")
       (simp_all add: run_suite_dispatched run_suite_results stp clean command_result_def)
  have nonempty: "worker_tests st i \<noteq> []"
    using worker_tests_length [of st i] by auto
  have apart: "fetch \<notin> set (map test_params (worker_tests st i))"
    "configure \<notin> set (map test_params (worker_tests st i))"
    "cleanup \<notin> set (map test_params (worker_tests st i))"
    by (simp_all add: fetch_def configure_def cleanup_def worker_tests_def setConfigs_def
          set_test_def shell_params_def)
  have tests: "map test_params (worker_tests st i) =
         [
          \<lparr>DocumentName = ''AWS-RunShellScript'',
           Comment = ''Execute Test Script WFS-report-workers.sh'',
           InstanceIds = [bastionId st],
           commands = [''sudo -i'', ''su - ec2-user >/dev/null'', ''cd ~ec2-user'',
                       ''./testScripts/WFS-report-workers.sh'']\<rparr>,
          \<lparr>DocumentName = ''AWS-RunShellScript'',
           Comment = ''Execute Test Script WFS-report-worker-sets.sh'',
           InstanceIds = [bastionId st],
           commands = [''sudo -i'', ''su - ec2-user >/dev/null'', ''cd ~ec2-user'',
                       ''./testScripts/WFS-report-worker-sets.sh'']\<rparr>,
          \<lparr>DocumentName = ''AWS-RunShellScript'',
           Comment = ''Execute Test Script WFS-submit-jobs-to-sets.sh for group'',
           InstanceIds = [bastionId st],
           commands = [''sudo -i'', ''su - ec2-user >/dev/null'', ''cd ~ec2-user'',
                       ''./testScripts/WFS-submit-jobs-to-sets.sh '' @ [CHR 0x22] @ ''group'' @ [CHR 0x22]
                        @ '' '' @ [CHR 0x22] @ ''-group testgroup'' @ [CHR 0x22]]\<rparr>,
          \<lparr>DocumentName = ''AWS-RunShellScript'',
           Comment = ''Execute Test Script WFS-submit-jobs-to-sets.sh for pool'',
           InstanceIds = [bastionId st],
           commands = [''sudo -i'', ''su - ec2-user >/dev/null'', ''cd ~ec2-user'',
                       ''./testScripts/WFS-submit-jobs-to-sets.sh '' @ [CHR 0x22] @ ''pool'' @ [CHR 0x22]
                        @ '' '' @ [CHR 0x22] @ ''-pool testpool'' @ [CHR 0x22]]\<rparr>]"
    by (simp add: worker_tests_def setConfigs_def set_test_def shell_params_def dq_def)
  from ok fail1 fail2 nonempty apart tests show ?thesis by blast
qed

text \<open>
  The end-to-end scenario of the specification with all the commands dispatched: on a
  substrate on which every command succeeds, on one on which every command fails, and
  on one on which the second command times out.
\<close>

theorem suite_dispatch_order_witness:
  "dispatched (run_suite (\<lambda>n p. \<lparr>state = Success, stdout = ''ip-10-0-0-1''\<rparr>)
       (\<lambda>s. if s = ''1'' then Some 1 else None)
       \<lparr>region = Some ''us-west-2'', integStackTag = ''42''\<rparr>
       (discover [(''bastionId'', ''i-1''), (''renderQueueEndpointWFS1'', ''rq1.local:4433''),
                  (''CertSecretARNWFS1'', ''arn:secret:1'')])
       1 []) =
     [
          \<lparr>DocumentName = ''AWS-RunShellScript'',
           Comment = ''Execute Test Script fetch-cert.sh'',
           InstanceIds = [Some ''i-1''],
           commands = [''sudo -i'', ''su - ec2-user >/dev/null'', ''cd ~ec2-user'',
                       ''./utilScripts/fetch-cert.sh '' @ [CHR 0x27] @ ''us-west-2'' @ [CHR 0x27]
                        @ '' '' @ [CHR 0x27] @ ''arn:secret:1'' @ [CHR 0x27]]\<rparr>,
          \<lparr>DocumentName = ''AWS-RunShellScript'',
           Comment = ''Execute Test Script configure-deadline.sh'',
           InstanceIds = [Some ''i-1''],
           commands = [''sudo -i'', ''su - ec2-user >/dev/null'', ''cd ~ec2-user'',
                       ''./utilScripts/configure-deadline.sh '' @ [CHR 0x27] @ ''rq1.local:4433''
                        @ [CHR 0x27]]\<rparr>,
          \<lparr>DocumentName = ''AWS-RunShellScript'',
           Comment = ''Execute Test Script WFS-report-workers.sh'',
           InstanceIds = [Some ''i-1''],
           commands = [''sudo -i'', ''su - ec2-user >/dev/null'', ''cd ~ec2-user'',
                       ''./testScripts/WFS-report-workers.sh'']\<rparr>,
          \<lparr>DocumentName = ''AWS-RunShellScript'',
           Comment = ''Execute Test Script WFS-report-worker-sets.sh'',
           InstanceIds = [Some ''i-1''],
           commands = [''sudo -i'', ''su - ec2-user >/dev/null'', ''cd ~ec2-user'',
                       ''./testScripts/WFS-report-worker-sets.sh'']\<rparr>,
          \<lparr>DocumentName = ''AWS-RunShellScript'',
           Comment = ''Execute Test Script WFS-submit-jobs-to-sets.sh for group'',
           InstanceIds = [Some ''i-1''],
           commands = [''sudo -i'', ''su - ec2-user >/dev/null'', ''cd ~ec2-user'',
                       ''./testScripts/WFS-submit-jobs-to-sets.sh '' @ [CHR 0x22] @ ''group'' @ [CHR 0x22]
                        @ '' '' @ [CHR 0x22] @ ''-group testgroup'' @ [CHR 0x22]]\<rparr>,
          \<lparr>DocumentName = ''AWS-RunShellScript'',
           Comment = ''Execute Test Script WFS-submit-jobs-to-sets.sh for pool'',
           InstanceIds = [Some ''i-1''],
           commands = [''sudo -i'', ''su - ec2-user >/dev/null'', ''cd ~ec2-user'',
                       ''./testScripts/WFS-submit-jobs-to-sets.sh '' @ [CHR 0x22] @ ''pool'' @ [CHR 0x22]
                        @ '' '' @ [CHR 0x22] @ ''-pool testpool'' @ [CHR 0x22]]\<rparr>,
          \<lparr>DocumentName = ''AWS-RunShellScript'',
           Comment = ''Execute Test Script cleanup-cert.sh'',
           InstanceIds = [Some ''i-1''],
           commands = [''sudo -i'', ''su - ec2-user >/dev/null'', ''cd ~ec2-user'',
                       ''./utilScripts/cleanup-cert.sh'']\<rparr>]
   \<and> dispatched (run_suite (\<lambda>n p. \<lparr>state = Failed, stdout = []\<rparr>)
       (\<lambda>s. if s = ''1'' then Some 1 else None)
       \<lparr>region = Some ''us-west-2'', integStackTag = ''42''\<rparr>
       (discover [(''bastionId'', ''i-1''), (''renderQueueEndpointWFS1'', ''rq1.local:4433''),
                  (''CertSecretARNWFS1'', ''arn:secret:1'')])
       1 []) =
     [
          \<lparr>DocumentName = ''AWS-RunShellScript'',
           Comment = ''Execute Test Script fetch-cert.sh'',
           InstanceIds = [Some ''i-1''],
           commands = [''sudo -i'', ''su - ec2-user >/dev/null'', ''cd ~ec2-user'',
                       ''./utilScripts/fetch-cert.sh '' @ [CHR 0x27] @ ''us-west-2'' @ [CHR 0x27]
                        @ '' '' @ [CHR 0x27] @ ''arn:secret:1'' @ [CHR 0x27]]\<rparr>,
          \<lparr>DocumentName = ''AWS-RunShellScript'',
           Comment = ''Execute Test Script cleanup-cert.sh'',
           InstanceIds = [Some ''i-1''],
           commands = [''sudo -i'', ''su - ec2-user >/dev/null'', ''cd ~ec2-user'',
                       ''./utilScripts/cleanup-cert.sh'']\<rparr>]
   \<and> dispatched (run_suite (\<lambda>n p. \<lparr>state = (if n = 1 then TimedOut else Success), stdout = []\<rparr>)
       (\<lambda>s. if s = ''1'' then Some 1 else None)
       \<lparr>region = Some ''us-west-2'', integStackTag = ''42''\<rparr>
       (discover [(''bastionId'', ''i-1''), (''renderQueueEndpointWFS1'', ''rq1.local:4433''),
                  (''CertSecretARNWFS1'', ''arn:secret:1'')])
       1 []) =
     [
          \<lparr>DocumentName = ''AWS-RunShellScript'',
           Comment = ''Execute Test Script fetch-cert.sh'',
           InstanceIds = [Some ''i-1''],
           commands = [''sudo -i'', ''su - ec2-user >/dev/null'', ''cd ~ec2-user'',
                       ''./utilScripts/fetch-cert.sh '' @ [CHR 0x27] @ ''us-west-2'' @ [CHR 0x27]
                        @ '' '' @ [CHR 0x27] @ ''arn:secret:1'' @ [CHR 0x27]]\<rparr>,
          \<lparr>DocumentName = ''AWS-RunShellScript'',
           Comment = ''Execute Test Script configure-deadline.sh'',
           InstanceIds = [Some ''i-1''],
           commands = [''sudo -i'', ''su - ec2-user >/dev/null'', ''cd ~ec2-user'',
                       ''./utilScripts/configure-deadline.sh '' @ [CHR 0x27] @ ''rq1.local:4433''
                        @ [CHR 0x27]]\<rparr>,
          \<lparr>DocumentName = ''AWS-RunShellScript'',
           Comment = ''Execute Test Script cleanup-cert.sh'',
           InstanceIds = [Some ''i-1''],
           commands = [''sudo -i'', ''su - ec2-user >/dev/null'', ''cd ~ec2-user'',
                       ''./utilScripts/cleanup-cert.sh'']\<rparr>]"
proof -
  let ?st = "\<lparr>bastionId = Some ''i-1'', renderQueueEndpoints = [None, Some ''rq1.local:4433''],
      secretARNs = [None, Some ''arn:secret:1'']\<rparr>"
  let ?env = "\<lparr>region = Some ''us-west-2'', integStackTag = ''42''\<rparr>"
  let ?tn = "\<lambda>s. if s = ''1'' then Some (1::nat) else None"
  have s: "js_get (secretARNs ?st) 1 = Some ''arn:secret:1''" "''arn:secret:1'' \<noteq> []"
    by (simp_all add: js_get_def)
  have e: "js_get (renderQueueEndpoints ?st) 1 = Some ''rq1.local:4433''"
    by (simp add: js_get_def)
  note t = suite_dispatch_order [OF s e, where env = ?env and tn = ?tn and ?d0.0 = "[]"]
  have a: "dispatched (run_suite (\<lambda>n p. \<lparr>state = Success, stdout = ''ip-10-0-0-1''\<rparr>) ?tn ?env ?st 1 []) =
     [
          \<lparr>DocumentName = ''AWS-RunShellScript'',
           Comment = ''Execute Test Script fetch-cert.sh'',
           InstanceIds = [Some ''i-1''],
           commands = [''sudo -i'', ''su - ec2-user >/dev/null'', ''cd ~ec2-user'',
                       ''./utilScripts/fetch-cert.sh '' @ [CHR 0x27] @ ''us-west-2'' @ [CHR 0x27]
                        @ '' '' @ [CHR 0x27] @ ''arn:secret:1'' @ [CHR 0x27]]\<rparr>,
          \<lparr>DocumentName = ''AWS-RunShellScript'',
           Comment = ''Execute Test Script configure-deadline.sh'',
           InstanceIds = [Some ''i-1''],
           commands = [''sudo -i'', ''su - ec2-user >/dev/null'', ''cd ~ec2-user'',
                       ''./utilScripts/configure-deadline.sh '' @ [CHR 0x27] @ ''rq1.local:4433''
                        @ [CHR 0x27]]\<rparr>,
          \<lparr>DocumentName = ''AWS-RunShellScript'',
           Comment = ''Execute Test Script WFS-report-workers.sh'',
           InstanceIds = [Some ''i-1''],
           commands = [''sudo -i'', ''su - ec2-user >/dev/null'', ''cd ~ec2-user'',
                       ''./testScripts/WFS-report-workers.sh'']\<rparr>,
          \<lparr>DocumentName = ''AWS-RunShellScript'',
           Comment = ''Execute Test Script WFS-report-worker-sets.sh'',
           InstanceIds = [Some ''i-1''],
           commands = [''sudo -i'', ''su - ec2-user >/dev/null'', ''cd ~ec2-user'',
                       ''./testScripts/WFS-report-worker-sets.sh'']\<rparr>,
          \<lparr>DocumentName = ''AWS-RunShellScript'',
           Comment = ''Execute Test Script WFS-submit-jobs-to-sets.sh for group'',
           InstanceIds = [Some ''i-1''],
           commands = [''sudo -i'', ''su - ec2-user >/dev/null'', ''cd ~ec2-user'',
                       ''./testScripts/WFS-submit-jobs-to-sets.sh '' @ [CHR 0x22] @ ''group'' @ [CHR 0x22]
                        @ '' '' @ [CHR 0x22] @ ''-group testgroup'' @ [CHR 0x22]]\<rparr>,
          \<lparr>DocumentName = ''AWS-RunShellScript'',
           Comment = ''Execute Test Script WFS-submit-jobs-to-sets.sh for pool'',
           InstanceIds = [Some ''i-1''],
           commands = [''sudo -i'', ''su - ec2-user >/dev/null'', ''cd ~ec2-user'',
                       ''./testScripts/WFS-submit-jobs-to-sets.sh '' @ [CHR 0x22] @ ''pool'' @ [CHR 0x22]
                        @ '' '' @ [CHR 0x22] @ ''-pool testpool'' @ [CHR 0x22]]\<rparr>,
          \<lparr>DocumentName = ''AWS-RunShellScript'',
           Comment = ''Execute Test Script cleanup-cert.sh'',
           InstanceIds = [Some ''i-1''],
           commands = [''sudo -i'', ''su - ec2-user >/dev/null'', ''cd ~ec2-user'',
                       ''./utilScripts/cleanup-cert.sh'']\<rparr>]"
    using t [of "\<lambda>n p. \<lparr>state = Success, stdout = ''ip-10-0-0-1''\<rparr>"]
    by (simp add: js_string_def)
  have b: "dispatched (run_suite (\<lambda>n p. \<lparr>state = Failed, stdout = []\<rparr>) ?tn ?env ?st 1 []) =
     [
          \<lparr>DocumentName = ''AWS-RunShellScript'',
           Comment = ''Execute Test Script fetch-cert.sh'',
           InstanceIds = [Some ''i-1''],
           commands = [''sudo -i'', ''su - ec2-user >/dev/null'', ''cd ~ec2-user'',
                       ''./utilScripts/fetch-cert.sh '' @ [CHR 0x27] @ ''us-west-2'' @ [CHR 0x27]
                        @ '' '' @ [CHR 0x27] @ ''arn:secret:1'' @ [CHR 0x27]]\<rparr>,
          \<lparr>DocumentName = ''AWS-RunShellScript'',
           Comment = ''Execute Test Script cleanup-cert.sh'',
           InstanceIds = [Some ''i-1''],
           commands = [''sudo -i'', ''su - ec2-user >/dev/null'', ''cd ~ec2-user'',
                       ''./utilScripts/cleanup-cert.sh'']\<rparr>]"
    using t [of "\<lambda>n p. \<lparr>state = Failed, stdout = []\<rparr>"]
    by (simp add: js_string_def)
  have c: "dispatched (run_suite (\<lambda>n p. \<lparr>state = (if n = 1 then TimedOut else Success), stdout = []\<rparr>) ?tn ?env ?st 1 []) =
     [
          \<lparr>DocumentName = ''AWS-RunShellScript'',
           Comment = ''Execute Test Script fetch-cert.sh'',
           InstanceIds = [Some ''i-1''],
           commands = [''sudo -i'', ''su - ec2-user >/dev/null'', ''cd ~ec2-user'',
                       ''./utilScripts/fetch-cert.sh '' @ [CHR 0x27] @ ''us-west-2'' @ [CHR 0x27]
                        @ '' '' @ [CHR 0x27] @ ''arn:secret:1'' @ [CHR 0x27]]\<rparr>,
          \<lparr>DocumentName = ''AWS-RunShellScript'',
           Comment = ''Execute Test Script configure-deadline.sh'',
           InstanceIds = [Some ''i-1''],
           commands = [''sudo -i'', ''su - ec2-user >/dev/null'', ''cd ~ec2-user'',
                       ''./utilScripts/configure-deadline.sh '' @ [CHR 0x27] @ ''rq1.local:4433''
                        @ [CHR 0x27]]\<rparr>,
          \<lparr>DocumentName = ''AWS-RunShellScript'',
           Comment = ''Execute Test Script cleanup-cert.sh'',
           InstanceIds = [Some ''i-1''],
           commands = [''sudo -i'', ''su - ec2-user >/dev/null'', ''cd ~ec2-user'',
                       ''./utilScripts/cleanup-cert.sh'']\<rparr>]"
    using t [of "\<lambda>n p. \<lparr>state = (if n = 1 then TimedOut else Success), stdout = []\<rparr>"]
    by (simp add: js_string_def)
  from a b c show ?thesis unfolding scenario_discovered by simp
qed

text \<open>
  Claim C9. Once the setup has completed, every test of the suite is dispatched as a
  command of its own, in the declared order, and has a result of its own that is
  computed from the outcome of that command alone, so no outcome or failed match of
  one test keeps another from being dispatched and evaluated. The commands of the
  tests are pairwise distinct and so are the names of the results. All tests address
  the same bastion, and the two instances of the parameterized test for job
  submission, for a group and for a pool, differ in their command arguments.
\<close>

theorem assertions_independent:
  assumes "setup_completed (run_suite sub tn env st i d0)"
  shows
    "results (run_suite sub tn env st i d0) =
       map (\<lambda>k. assertion tn i (worker_tests st i ! k)
                  (command_result sub (length d0 + 2 + k) (test_params (worker_tests st i ! k))))
           [0..<4]
     \<and> (\<exists>pre. length pre = length d0 + 2
          \<and> dispatched (run_suite sub tn env st i d0) =
              pre @ map test_params (worker_tests st i) @ [suite_afterAll st])
     \<and> distinct (map test_params (worker_tests st i))
     \<and> distinct (map testId (results (run_suite sub tn env st i d0)))
     \<and> map (\<lambda>t. InstanceIds (test_params t)) (worker_tests st i) = replicate 4 [bastionId st]
     \<and> commands (test_params (worker_tests st i ! 2))
          \<noteq> commands (test_params (worker_tests st i ! 3))"
proof -
  from assms have ok: "snd (setting_up sub env st i d0)"
    by (simp add: run_suite_setup_completed)
  note len = setting_up_completed_length [OF ok]
  have res: "results (run_suite sub tn env st i d0) =
       map (\<lambda>k. assertion tn i (worker_tests st i ! k)
                  (command_result sub (length d0 + 2 + k) (test_params (worker_tests st i ! k))))
           [0..<4]"
    using ok by (simp add: run_suite_results len worker_tests_length)
  have "dispatched (run_suite sub tn env st i d0) =
      fst (setting_up sub env st i d0) @ map test_params (worker_tests st i) @ [suite_afterAll st]"
    using ok by (simp add: run_suite_dispatched)
  with len have disp: "\<exists>pre. length pre = length d0 + 2
          \<and> dispatched (run_suite sub tn env st i d0) =
              pre @ map test_params (worker_tests st i) @ [suite_afterAll st]"
    by blast
  have "map testId (results (run_suite sub tn env st i d0)) = map test_name (worker_tests st i)"
    unfolding res
    by (rule nth_equalityI)
       (auto simp: worker_tests_length assertion_def split: sum.split)
  then have names: "distinct (map testId (results (run_suite sub tn env st i d0)))"
    by (simp add: worker_tests_distinct)
  from res disp names worker_tests_distinct(1) worker_tests_host set_tests_arguments
  show ?thesis by blast
qed

text \<open>
  The scenario with a substrate on which the first test's output does not match: the
  three tests after it are still evaluated, and match.
\<close>

theorem assertions_independent_witness:
  "setup_completed (run_suite
       (\<lambda>n p. \<lparr>state = Success,
                 stdout = (if n = 2 then ''no workers''
                           else if n = 3 then ''testpool'' @ [CHR 0x0A] @ ''testgroup'' @ [CHR 0x0A] @ ''testregion''
                           else ''1'')\<rparr>)
       (\<lambda>s. if s = ''1'' then Some 1 else None)
       \<lparr>region = Some ''us-west-2'', integStackTag = ''42''\<rparr>
       (discover [(''bastionId'', ''i-1''), (''renderQueueEndpointWFS1'', ''rq1.local:4433''),
                  (''CertSecretARNWFS1'', ''arn:secret:1'')])
       1 [])
   \<and> map matched (results (run_suite
       (\<lambda>n p. \<lparr>state = Success,
                 stdout = (if n = 2 then ''no workers''
                           else if n = 3 then ''testpool'' @ [CHR 0x0A] @ ''testgroup'' @ [CHR 0x0A] @ ''testregion''
                           else ''1'')\<rparr>)
       (\<lambda>s. if s = ''1'' then Some 1 else None)
       \<lparr>region = Some ''us-west-2'', integStackTag = ''42''\<rparr>
       (discover [(''bastionId'', ''i-1''), (''renderQueueEndpointWFS1'', ''rq1.local:4433''),
                  (''CertSecretARNWFS1'', ''arn:secret:1'')])
       1 []))
     = [False, True, True, True]"
proof -
  let ?st = "\<lparr>bastionId = Some ''i-1'', renderQueueEndpoints = [None, Some ''rq1.local:4433''],
      secretARNs = [None, Some ''arn:secret:1'']\<rparr>"
  let ?env = "\<lparr>region = Some ''us-west-2'', integStackTag = ''42''\<rparr>"
  let ?tn = "\<lambda>s. if s = ''1'' then Some (1::nat) else None"
  let ?sub = "\<lambda>(n::nat) (p::ssm_params). \<lparr>state = Success,
                 stdout = (if n = 2 then ''no workers''
                           else if n = 3 then ''testpool'' @ [CHR 0x0A] @ ''testgroup'' @ [CHR 0x0A] @ ''testregion''
                           else ''1'')\<rparr>"
  have h: "setup_completed (run_suite ?sub ?tn ?env ?st 1 [])"
    by (simp add: run_suite_setup_completed setting_up_cases suite_beforeAll_def js_truthy_def
          js_get_def command_result_def)
  from assertions_independent [OF h]
  have "results (run_suite ?sub ?tn ?env ?st 1 []) =
       map (\<lambda>k. assertion ?tn 1 (worker_tests ?st 1 ! k)
                  (command_result ?sub (length ([]::ssm_params list) + 2 + k)
                     (test_params (worker_tests ?st 1 ! k))))
           [0..<4]"
    by blast
  then have "map matched (results (run_suite ?sub ?tn ?env ?st 1 [])) = [False, True, True, True]"
    by (simp add: upt_rec assertion_def command_result_def worker_tests_def setConfigs_def
          set_test_def expectation_holds_def)
  with h show ?thesis unfolding scenario_discovered by simp
qed

end
